theory Spec2Isabelle
  imports Complex_Main
begin

section \<open>Tensors\<close>

text \<open>
  The notebook computes on float32 tensors.  Throughout this development a tensor
  entry is a real number, a rank-1 tensor a list and a rank-2 tensor a list of rows;
  the rounding of the machine format is outside the embedding.  Where the range of
  the format matters, for the exponentials of \<open>call\<close>, the exact value is compared
  with the smallest positive and the largest finite number of the format.
\<close>

type_synonym vec = "real list"
type_synonym mat = "real list list"

section \<open>The network \<open>APCSkewT\<close>\<close>

text \<open>
  \<open>tf.keras.layers.Normalization\<close>, adapted to the feature matrix, keeps one mean and
  one variance per feature and maps an input to
  \<open>(x - mean) / maximum (sqrt variance) epsilon\<close>.
\<close>

record normalization =
  nmean :: vec
  nvariance :: vec

definition keras_epsilon :: real where
  "keras_epsilon = 1 / 10000000"

definition normalize :: "normalization \<Rightarrow> vec \<Rightarrow> vec" where
  "normalize n x =
     map (\<lambda>(xi, m, v). (xi - m) / max (sqrt v) keras_epsilon) (zip x (zip (nmean n) (nvariance n)))"

text \<open>
  \<open>Dense(units)\<close> holds a kernel of shape (inputs, units) and a bias of shape (units);
  it maps a row \<open>x\<close> of as many entries as the kernel has rows to
  \<open>activation (x . kernel + bias)\<close>.
\<close>

record dense =
  kernel :: mat
  bias :: vec

definition dense_linear :: "dense \<Rightarrow> vec \<Rightarrow> vec" where
  "dense_linear l x =
     map (\<lambda>j. sum_list (map2 (\<lambda>xi row. xi * row ! j) x (kernel l)) + bias l ! j)
       [0..<length (bias l)]"

definition relu :: "real \<Rightarrow> real" where
  "relu v = max 0 v"

definition dense_relu :: "dense \<Rightarrow> vec \<Rightarrow> vec" where
  "dense_relu l x = map relu (dense_linear l x)"

text \<open>
  The four output layers are \<open>Dense(1)\<close>: the kernel has shape (hidden, 1) and the bias
  shape (1), so a head is one column and one number and its output on a row is a scalar.
\<close>

record head =
  hkernel :: vec
  hbias :: real

definition head_apply :: "head \<Rightarrow> vec \<Rightarrow> real" where
  "head_apply l h = sum_list (map2 (*) h (hkernel l)) + hbias l"

record apc_weights =
  f1 :: dense
  f2 :: dense
  mu_output :: head
  log_sigma_output :: head
  skew_output :: head
  log_tau_output :: head

text \<open>
  \<open>APCSkewT.call\<close> on one feature row: normalise, pass through the two shared
  \<open>relu\<close> layers, and return the four distribution parameters.
\<close>

definition shared_features :: "normalization \<Rightarrow> apc_weights \<Rightarrow> vec \<Rightarrow> vec" where
  "shared_features n w x = dense_relu (f2 w) (dense_relu (f1 w) (normalize n x))"

definition call :: "normalization \<Rightarrow> apc_weights \<Rightarrow> vec \<Rightarrow> real \<times> real \<times> real \<times> real" where
  "call n w x =
     (let h = shared_features n w x in
      (head_apply (mu_output w) h,
       exp (head_apply (log_sigma_output w) h),
       5 * tanh (head_apply (skew_output w) h),
       exp (head_apply (log_tau_output w) h)))"

text \<open>
  The smallest positive float32 number is \<open>2^-149\<close> and the largest finite one
  is \<open>(2 - 2^-23) * 2^127\<close>.  An operation whose exact result is positive and
  below half the smallest positive number returns \<open>0.0\<close>, and one whose exact result is
  \<open>2^128\<close> or more returns \<open>inf\<close>.
\<close>

definition float32_smallest :: real where
  "float32_smallest = 1 / 2 ^ 149"

definition float32_largest :: real where
  "float32_largest = (2 - 1 / 2 ^ 23) * 2 ^ 127"

section \<open>The skew-t distribution\<close>

text \<open>
  The part of the probability library that \<open>skew_t\<close> uses.  A bijector is a
  shift, a scaling, the sinh-arcsinh transformation or a chain; \<open>Chain [f, g, h]\<close>
  is the composition \<open>f o g o h\<close>, so its forward map applies the last element of
  the list first and its inverse applies the inverse of the first element first.
\<close>

datatype bijector =
    Shift real
  | Scale real
  | SinhArcsinh real real
  | Chain "bijector list"

datatype distribution =
    StudentT real real real
  | TransformedDistribution distribution bijector

text \<open>
  The sinh-arcsinh bijector with skewness \<open>sk\<close> and tailweight \<open>tw\<close> maps \<open>x\<close> to
  \<open>sinh ((arsinh x + sk) * tw) * m\<close>, where the multiplier \<open>m = 2 / sinh (arsinh 2 * tw)\<close>
  depends on the tailweight only.
\<close>

definition sas_multiplier :: "real \<Rightarrow> real" where
  "sas_multiplier tw = 2 / sinh (arsinh 2 * tw)"

fun forward :: "bijector \<Rightarrow> real \<Rightarrow> real" where
  "forward (Shift m) x = x + m"
| "forward (Scale s) x = x * s"
| "forward (SinhArcsinh sk tw) x = sinh ((arsinh x + sk) * tw) * sas_multiplier tw"
| "forward (Chain bs) x = foldr forward bs x"

fun inverse_bij :: "bijector \<Rightarrow> real \<Rightarrow> real" where
  "inverse_bij (Shift m) y = y - m"
| "inverse_bij (Scale s) y = y / s"
| "inverse_bij (SinhArcsinh sk tw) y = sinh (arsinh (y / sas_multiplier tw) / tw - sk)"
| "inverse_bij (Chain bs) y = foldl (\<lambda>v b. inverse_bij b v) y bs"

text \<open>The logarithm of the absolute derivative of the forward map.\<close>

fun forward_log_det_jacobian :: "bijector \<Rightarrow> real \<Rightarrow> real" where
  "forward_log_det_jacobian (Shift m) x = 0"
| "forward_log_det_jacobian (Scale s) x = ln \<bar>s\<bar>"
| "forward_log_det_jacobian (SinhArcsinh sk tw) x =
     ln (cosh ((arsinh x + sk) * tw) * tw * sas_multiplier tw / sqrt (x\<^sup>2 + 1))"
| "forward_log_det_jacobian (Chain bs) x =
     snd (foldr (\<lambda>b (v, acc). (forward b v, acc + forward_log_det_jacobian b v)) bs (x, 0))"

definition inverse_log_det_jacobian :: "bijector \<Rightarrow> real \<Rightarrow> real" where
  "inverse_log_det_jacobian b y = - forward_log_det_jacobian b (inverse_bij b y)"

text \<open>
  Whether the forward map is increasing: a scaling is when its factor is positive,
  a chain when an even number of its members are decreasing.
\<close>

fun is_increasing :: "bijector \<Rightarrow> bool" where
  "is_increasing (Shift m) = True"
| "is_increasing (Scale s) = (0 < s)"
| "is_increasing (SinhArcsinh sk tw) = True"
| "is_increasing (Chain bs) = foldr (\<lambda>b acc. is_increasing b = acc) bs True"

text \<open>
  The standard Student-t distribution with 3 degrees of freedom has the closed-form
  distribution function \<open>1/2 + (u / (1 + u\<^sup>2) + arctan u) / pi\<close> with \<open>u = x / sqrt 3\<close>
  and the density \<open>2 / (pi * sqrt 3 * (1 + x\<^sup>2 / 3)\<^sup>2)\<close>.  Its quantile function is
  the inverse of the distribution function.  The notebook uses no other number of
  degrees of freedom, and no other is given a meaning here.
\<close>

definition t3_shape :: "real \<Rightarrow> real" where
  "t3_shape u = u / (1 + u\<^sup>2) + arctan u"

definition student_t3_cdf :: "real \<Rightarrow> real" where
  "student_t3_cdf x = 1 / 2 + t3_shape (x / sqrt 3) / pi"

definition student_t3_log_prob :: "real \<Rightarrow> real" where
  "student_t3_log_prob x = ln (2 / (pi * sqrt 3 * (1 + x\<^sup>2 / 3)\<^sup>2))"

definition student_t3_quantile :: "real \<Rightarrow> real" where
  "student_t3_quantile p = the_inv student_t3_cdf p"

fun quantile :: "distribution \<Rightarrow> real \<Rightarrow> real" where
  "quantile (StudentT df loc scale) p =
     (if df = 3 then loc + scale * student_t3_quantile p else undefined)"
| "quantile (TransformedDistribution d b) p =
     forward b (quantile d (if is_increasing b then p else 1 - p))"

fun log_prob :: "distribution \<Rightarrow> real \<Rightarrow> real" where
  "log_prob (StudentT df loc scale) y =
     (if df = 3 then student_t3_log_prob ((y - loc) / scale) - ln \<bar>scale\<bar> else undefined)"
| "log_prob (TransformedDistribution d b) y =
     log_prob d (inverse_bij b y) + inverse_log_det_jacobian b y"

text \<open>
  \<open>skew_t\<close>: the base distribution is \<open>StudentT(df=3, loc=0, scale=1)\<close> and the
  bijector is \<open>Chain [Shift mu, Scale sigma, SinhArcsinh skew tail]\<close>.
\<close>

definition skew_t :: "real \<Rightarrow> real \<Rightarrow> real \<Rightarrow> real \<Rightarrow> distribution" where
  "skew_t mu sigma skew tail =
     (let base = StudentT 3 0 1
      in TransformedDistribution base
           (Chain [Shift mu, Scale sigma, SinhArcsinh skew tail]))"

text \<open>
  The quantile computation of the diagnostics for one day: the list of
  \<open>dist.quantile(p)\<close> over the five percentiles, times \<open>y_std\<close> plus \<open>y_mean\<close>.
\<close>

definition percentiles :: "real list" where
  "percentiles = [1 / 10, 1 / 4, 1 / 2, 3 / 4, 9 / 10]"

definition quantile_fan :: "distribution \<Rightarrow> real \<Rightarrow> real \<Rightarrow> real list" where
  "quantile_fan d y_std y_mean = map (\<lambda>p. quantile d p * y_std + y_mean) percentiles"

section \<open>Errors\<close>

text \<open>
  The Python exceptions that the notebook can meet.  A computation that may raise
  returns \<open>Inl\<close> of the exception or \<open>Inr\<close> of its result.
\<close>

datatype pyerror =
    NameError string
  | KeyError string
  | IndexError
  | FileNotFoundError
  | ModuleNotFoundError string
  | AttributeError string
  | InvalidArgumentError
  | ValueError

definition bind :: "pyerror + 'a \<Rightarrow> ('a \<Rightarrow> pyerror + 'b) \<Rightarrow> pyerror + 'b" where
  "bind m f = (case m of Inl e \<Rightarrow> Inl e | Inr v \<Rightarrow> f v)"

section \<open>Data frames\<close>

text \<open>
  A cell of a frame is a number or \<open>NaN\<close> (\<open>None\<close>); a date is the number of its
  day.  A frame has an index (its name and one label per row) and named columns in
  their order.  \<open>df[c]\<close> raises \<open>KeyError\<close> when \<open>c\<close> is not a column;
  \<open>df[c] = v\<close> replaces the column \<open>c\<close> in place or appends it as the last column.
\<close>

type_synonym cell = "real option"

record frame =
  index_name :: "string option"
  index_labels :: "cell list"
  columns :: "(string \<times> cell list) list"

definition empty_frame :: frame where
  "empty_frame = \<lparr>index_name = None, index_labels = [], columns = []\<rparr>"

definition nrows :: "frame \<Rightarrow> nat" where
  "nrows df = length (index_labels df)"

definition is_empty :: "frame \<Rightarrow> bool" where
  "is_empty df = (index_labels df = [] \<or> columns df = [])"

definition getitem :: "frame \<Rightarrow> string \<Rightarrow> pyerror + cell list" where
  "getitem df c = (case map_of (columns df) c of None \<Rightarrow> Inl (KeyError c) | Some v \<Rightarrow> Inr v)"

fun set_column :: "string \<Rightarrow> cell list \<Rightarrow> (string \<times> cell list) list \<Rightarrow> (string \<times> cell list) list" where
  "set_column c v [] = [(c, v)]"
| "set_column c v ((c', v') # cols) = (if c' = c then (c, v) # cols else (c', v') # set_column c v cols)"

definition setitem :: "frame \<Rightarrow> string \<Rightarrow> cell list \<Rightarrow> frame" where
  "setitem df c v = df\<lparr>columns := set_column c v (columns df)\<rparr>"

text \<open>\<open>df.dropna()\<close> keeps the rows none of whose cells is \<open>NaN\<close>.\<close>

definition select :: "bool list \<Rightarrow> 'a list \<Rightarrow> 'a list" where
  "select keep xs = map snd (filter fst (zip keep xs))"

definition complete_rows :: "frame \<Rightarrow> bool list" where
  "complete_rows df = map (\<lambda>i. list_all (\<lambda>(c, v). v ! i \<noteq> None) (columns df)) [0..<nrows df]"

definition dropna :: "frame \<Rightarrow> frame" where
  "dropna df =
     df\<lparr>index_labels := select (complete_rows df) (index_labels df),
        columns := map (\<lambda>(c, v). (c, select (complete_rows df) v)) (columns df)\<rparr>"

section \<open>Technical indicators\<close>

text \<open>
  The routines of pandas and of the \<open>ta\<close> package that \<open>compute_technical_features\<close>
  calls, on a price column.  \<open>rolling(w)\<close> looks at the \<open>w\<close> cells that end at the
  current row, and gives \<open>NaN\<close> until \<open>w\<close> rows are there or when one of the cells
  is \<open>NaN\<close>.
\<close>

definition window :: "nat \<Rightarrow> 'a list \<Rightarrow> nat \<Rightarrow> 'a list" where
  "window w xs t = take w (drop (Suc t - w) xs)"

definition mean :: "vec \<Rightarrow> real" where
  "mean vs = sum_list vs / real (length vs)"

definition std_ddof :: "nat \<Rightarrow> vec \<Rightarrow> real" where
  "std_ddof k vs = sqrt (sum_list (map (\<lambda>v. (v - mean vs)\<^sup>2) vs) / real (length vs - k))"

definition rolling :: "nat \<Rightarrow> (vec \<Rightarrow> cell) \<Rightarrow> cell list \<Rightarrow> cell list" where
  "rolling w agg xs =
     map (\<lambda>t. if Suc t < w then None
              else (case those (window w xs t) of None \<Rightarrow> None | Some vs \<Rightarrow> agg vs))
       [0..<length xs]"

definition sub_cell :: "cell \<Rightarrow> cell \<Rightarrow> cell" where
  "sub_cell a b = (case (a, b) of (Some x, Some y) \<Rightarrow> Some (x - y) | _ \<Rightarrow> None)"

text \<open>
  Division of cells.  Where the notebook divides, a zero divisor (a zero standard
  deviation of a window) comes with a zero dividend, and \<open>0 / 0\<close> is \<open>NaN\<close>.
\<close>

definition div_cell :: "cell \<Rightarrow> cell \<Rightarrow> cell" where
  "div_cell a b =
     (case (a, b) of (Some x, Some y) \<Rightarrow> if y = 0 then None else Some (x / y) | _ \<Rightarrow> None)"

definition sma_indicator :: "cell list \<Rightarrow> nat \<Rightarrow> cell list" where
  "sma_indicator close w = rolling w (\<lambda>vs. Some (mean vs)) close"

text \<open>
  \<open>series.diff(1)\<close> and \<open>series.shift(1)\<close>; the exponentially weighted mean
  \<open>ewm(alpha, min_periods, adjust=False).mean()\<close>, which starts at the first value and
  then takes \<open>(1 - alpha) * previous + alpha * current\<close>, and shows \<open>NaN\<close> on the
  first \<open>min_periods - 1\<close> rows.
\<close>

definition shift1 :: "cell list \<Rightarrow> cell list" where
  "shift1 xs = (case xs of [] \<Rightarrow> [] | _ # _ \<Rightarrow> None # butlast xs)"

definition diff1 :: "cell list \<Rightarrow> cell list" where
  "diff1 xs = map2 sub_cell xs (shift1 xs)"

fun ewm_from :: "real \<Rightarrow> real \<Rightarrow> vec \<Rightarrow> vec" where
  "ewm_from a y [] = []"
| "ewm_from a y (x # xs) = ((1 - a) * y + a * x) # ewm_from a ((1 - a) * y + a * x) xs"

fun ewm_mean :: "real \<Rightarrow> vec \<Rightarrow> vec" where
  "ewm_mean a [] = []"
| "ewm_mean a (x # xs) = x # ewm_from a x xs"

definition min_periods :: "nat \<Rightarrow> vec \<Rightarrow> cell list" where
  "min_periods m ys = map (\<lambda>(t, y). if Suc t < m then None else Some y) (zip [0..<length ys] ys)"

text \<open>
  \<open>ta.momentum.rsi\<close>: the gains and losses of the one-day differences (a \<open>NaN\<close>
  difference counts as 0), their exponentially weighted means with \<open>alpha = 1 / w\<close>,
  and \<open>100\<close> where the mean loss is zero, else \<open>100 - 100 / (1 + gain / loss)\<close>.
\<close>

definition up_direction :: "cell \<Rightarrow> real" where
  "up_direction d = (case d of Some v \<Rightarrow> if 0 < v then v else 0 | None \<Rightarrow> 0)"

definition down_direction :: "cell \<Rightarrow> real" where
  "down_direction d = (case d of Some v \<Rightarrow> if v < 0 then - v else 0 | None \<Rightarrow> 0)"

definition rsi_cell :: "cell \<Rightarrow> cell \<Rightarrow> cell" where
  "rsi_cell emaup emadn =
     (case (emaup, emadn) of
        (Some u, Some d) \<Rightarrow> if d = 0 then Some 100 else Some (100 - 100 / (1 + u / d))
      | _ \<Rightarrow> None)"

definition rsi :: "cell list \<Rightarrow> nat \<Rightarrow> cell list" where
  "rsi close w =
     (let d = diff1 close;
          emaup = min_periods w (ewm_mean (1 / real w) (map up_direction d));
          emadn = min_periods w (ewm_mean (1 / real w) (map down_direction d))
      in map2 rsi_cell emaup emadn)"

text \<open>
  \<open>ta.volatility.average_true_range\<close>.  The true range of a row is the largest of
  \<open>high - low\<close>, \<open>|high - previous close|\<close> and \<open>|low - previous close|\<close> that is
  not \<open>NaN\<close>.  The result is an array of zeros in which entry \<open>w - 1\<close> is the mean of
  the first \<open>w\<close> true ranges (skipping \<open>NaN\<close>) and every later entry is
  \<open>(previous * (w - 1) + true range) / w\<close>; writing entry \<open>w - 1\<close> of an array
  shorter than \<open>w\<close> raises \<open>IndexError\<close>.  The window is positive.
\<close>

definition present :: "cell list \<Rightarrow> vec" where
  "present cs = concat (map (\<lambda>c. case c of None \<Rightarrow> [] | Some v \<Rightarrow> [v]) cs)"

definition nanmax :: "cell list \<Rightarrow> cell" where
  "nanmax cs = (case present cs of [] \<Rightarrow> None | v # vs \<Rightarrow> Some (fold max vs v))"

definition nanmean :: "cell list \<Rightarrow> cell" where
  "nanmean cs = (case present cs of [] \<Rightarrow> None | v # vs \<Rightarrow> Some (mean (v # vs)))"

definition true_range :: "cell list \<Rightarrow> cell list \<Rightarrow> cell list \<Rightarrow> cell list" where
  "true_range high low close =
     map (\<lambda>(h, l, pc). nanmax [sub_cell h l, map_option abs (sub_cell h pc), map_option abs (sub_cell l pc)])
       (zip high (zip low (shift1 close)))"

definition atr_next :: "nat \<Rightarrow> cell \<Rightarrow> cell \<Rightarrow> cell" where
  "atr_next w a t =
     (case (a, t) of (Some x, Some y) \<Rightarrow> Some ((x * real (w - 1) + y) / real w) | _ \<Rightarrow> None)"

fun atr_from :: "nat \<Rightarrow> cell \<Rightarrow> cell list \<Rightarrow> cell list" where
  "atr_from w a [] = []"
| "atr_from w a (t # ts) = atr_next w a t # atr_from w (atr_next w a t) ts"

definition average_true_range :: "cell list \<Rightarrow> cell list \<Rightarrow> cell list \<Rightarrow> nat \<Rightarrow> pyerror + cell list" where
  "average_true_range high low close w =
     (let tr = true_range high low close in
      if length close < w then Inl IndexError
      else Inr (replicate (w - 1) (Some 0) @ nanmean (take w tr) # atr_from w (nanmean (take w tr)) (drop w tr)))"

text \<open>
  \<open>BollingerBands(close, w, dev).bollinger_pband()\<close>: with the rolling mean and the
  rolling population standard deviation, the bands are \<open>mean + dev * std\<close> and
  \<open>mean - dev * std\<close>, and the result is \<open>(close - low band) / (high band - low band)\<close>.
\<close>

definition pband :: "real \<Rightarrow> vec \<Rightarrow> cell" where
  "pband dev vs =
     (let mavg = mean vs; mstd = std_ddof 0 vs;
          hband = mavg + dev * mstd; lband = mavg - dev * mstd
      in div_cell (Some (last vs - lband)) (Some (hband - lband)))"

definition bollinger_pband :: "cell list \<Rightarrow> nat \<Rightarrow> real \<Rightarrow> cell list" where
  "bollinger_pband close w dev = rolling w (pband dev) close"

text \<open>
  The z-score of the notebook itself: \<open>(price - rolling(20).mean()) / rolling(20).std()\<close>,
  with the sample standard deviation.
\<close>

definition z_score :: "cell list \<Rightarrow> nat \<Rightarrow> cell list" where
  "z_score price w =
     (let mean_col = rolling w (\<lambda>vs. Some (mean vs)) price;
          std_col = rolling w (\<lambda>vs. Some (std_ddof 1 vs)) price
      in map2 div_cell (map2 sub_cell price mean_col) std_col)"

section \<open>Preprocessing functions of the notebook\<close>

definition feature_names :: "string list" where
  "feature_names = [''sma_20'', ''sma_50'', ''rsi_14'', ''atr_14'', ''bb_pct'', ''z_score'']"

text \<open>
  \<open>compute_technical_features\<close>: a copy of the frame receives the six columns, each
  computed from \<open>df[price_col]\<close> as the frame stands at that line, and the rows with a
  \<open>NaN\<close> are dropped.  \<open>add_technical_features\<close> is the function up to its last line.
\<close>

definition add_technical_features :: "frame \<Rightarrow> string \<Rightarrow> pyerror + frame" where
  "add_technical_features df price_col =
     bind (getitem df price_col) (\<lambda>c1.
     let df1 = setitem df ''sma_20'' (sma_indicator c1 20) in
     bind (getitem df1 price_col) (\<lambda>c2.
     let df2 = setitem df1 ''sma_50'' (sma_indicator c2 50) in
     bind (getitem df2 price_col) (\<lambda>c3.
     let df3 = setitem df2 ''rsi_14'' (rsi c3 14) in
     bind (getitem df3 price_col) (\<lambda>c4.
     bind (average_true_range c4 c4 c4 14) (\<lambda>atr.
     let df4 = setitem df3 ''atr_14'' atr in
     bind (getitem df4 price_col) (\<lambda>c5.
     let df5 = setitem df4 ''bb_pct'' (bollinger_pband c5 20 2) in
     bind (getitem df5 price_col) (\<lambda>c6.
     let df6 = setitem df5 ''z_score'' (z_score c6 20) in
     Inr df6)))))))"

definition compute_technical_features :: "frame \<Rightarrow> string \<Rightarrow> pyerror + frame" where
  "compute_technical_features df price_col =
     bind (add_technical_features df price_col) (\<lambda>df6. Inr (dropna df6))"

text \<open>
  \<open>prepare_target\<close>: the price column itself, or the differences of its logarithm
  without their first, \<open>NaN\<close>, row.
\<close>

definition log_returns :: "cell list \<Rightarrow> cell list" where
  "log_returns price = filter (\<lambda>c. c \<noteq> None) (diff1 (map (map_option ln) price))"

definition prepare_target :: "frame \<Rightarrow> string \<Rightarrow> bool \<Rightarrow> pyerror + cell list" where
  "prepare_target df price_col use_returns =
     (if use_returns then bind (getitem df price_col) (\<lambda>c. Inr (log_returns c))
      else getitem df price_col)"

section \<open>Auxiliary definitions for the statements\<close>

text \<open>The column names of a frame, in order.\<close>

definition column_names :: "frame \<Rightarrow> string list" where
  "column_names df = map fst (columns df)"

text \<open>
  The frame that \<open>compute_technical_features\<close> holds before its last line, given the
  price column and the column of average true ranges.
\<close>

definition with_features :: "frame \<Rightarrow> cell list \<Rightarrow> cell list \<Rightarrow> frame" where
  "with_features df p atr =
     setitem (setitem (setitem (setitem (setitem (setitem df
       ''sma_20'' (sma_indicator p 20)) ''sma_50'' (sma_indicator p 50)) ''rsi_14'' (rsi p 14))
       ''atr_14'' atr) ''bb_pct'' (bollinger_pband p 20 2)) ''z_score'' (z_score p 20)"

text \<open>
  The first \<open>n\<close> rows of a frame (\<open>df.iloc[:n]\<close>); a frame is well formed when every
  column has one cell per row; and the number of rows among the first \<open>n\<close> that have
  no \<open>NaN\<close>, which are the rows that \<open>dropna\<close> keeps of them.
\<close>

definition first_rows :: "nat \<Rightarrow> frame \<Rightarrow> frame" where
  "first_rows n df =
     df\<lparr>index_labels := take n (index_labels df),
        columns := map (\<lambda>(c, v). (c, take n v)) (columns df)\<rparr>"

definition well_formed :: "frame \<Rightarrow> bool" where
  "well_formed df = list_all (\<lambda>(c, v). length v = nrows df) (columns df)"

definition kept_rows :: "nat \<Rightarrow> frame \<Rightarrow> nat" where
  "kept_rows n df = length (filter id (take n (complete_rows df)))"

text \<open>A price series of fourteen days and the frame that holds it, indexed by date.\<close>

definition demo_prices :: "cell list" where
  "demo_prices = map Some [100, 101, 103, 102, 104, 105, 107, 106, 108, 110, 109, 111, 112, 114]"

definition demo_frame :: "cell list \<Rightarrow> frame" where
  "demo_frame p =
     \<lparr>index_name = Some ''date'', index_labels = map (\<lambda>i. Some (real i)) [0..<length p],
      columns = [(''rolled_close'', p)]\<rparr>"

text \<open>
  The prices \<open>0, 1, ..., n - 1\<close> of \<open>n\<close> days, and the data file that holds them with
  the days \<open>19000, 19001, ...\<close>.
\<close>

definition rising_prices :: "nat \<Rightarrow> cell list" where
  "rising_prices n = map (\<lambda>i. Some (real i)) [0..<n]"

definition rising_csv :: "nat \<Rightarrow> frame" where
  "rising_csv n =
     \<lparr>index_name = None, index_labels = map (\<lambda>i. Some (real i)) [0..<n],
      columns = [(''date'', map (\<lambda>i. Some (19000 + real i)) [0..<n]),
                 (''rolled_close'', rising_prices n)]\<rparr>"

section \<open>Training\<close>

text \<open>
  The trainable variables of the model are the kernels and biases of the two shared
  layers and of the four heads, in this order.  A gradient, and each slot of the
  optimizer, has the shape of the variables.
\<close>

definition map_dense :: "(real \<Rightarrow> real) \<Rightarrow> dense \<Rightarrow> dense" where
  "map_dense f l = \<lparr>kernel = map (map f) (kernel l), bias = map f (bias l)\<rparr>"

definition map_head :: "(real \<Rightarrow> real) \<Rightarrow> head \<Rightarrow> head" where
  "map_head f l = \<lparr>hkernel = map f (hkernel l), hbias = f (hbias l)\<rparr>"

definition map_weights :: "(real \<Rightarrow> real) \<Rightarrow> apc_weights \<Rightarrow> apc_weights" where
  "map_weights f w =
     \<lparr>f1 = map_dense f (f1 w), f2 = map_dense f (f2 w),
      mu_output = map_head f (mu_output w), log_sigma_output = map_head f (log_sigma_output w),
      skew_output = map_head f (skew_output w), log_tau_output = map_head f (log_tau_output w)\<rparr>"

definition map2_dense :: "(real \<Rightarrow> real \<Rightarrow> real) \<Rightarrow> dense \<Rightarrow> dense \<Rightarrow> dense" where
  "map2_dense f a b =
     \<lparr>kernel = map2 (map2 f) (kernel a) (kernel b), bias = map2 f (bias a) (bias b)\<rparr>"

definition map2_head :: "(real \<Rightarrow> real \<Rightarrow> real) \<Rightarrow> head \<Rightarrow> head \<Rightarrow> head" where
  "map2_head f a b = \<lparr>hkernel = map2 f (hkernel a) (hkernel b), hbias = f (hbias a) (hbias b)\<rparr>"

definition map2_weights :: "(real \<Rightarrow> real \<Rightarrow> real) \<Rightarrow> apc_weights \<Rightarrow> apc_weights \<Rightarrow> apc_weights" where
  "map2_weights f a b =
     \<lparr>f1 = map2_dense f (f1 a) (f1 b), f2 = map2_dense f (f2 a) (f2 b),
      mu_output = map2_head f (mu_output a) (mu_output b),
      log_sigma_output = map2_head f (log_sigma_output a) (log_sigma_output b),
      skew_output = map2_head f (skew_output a) (skew_output b),
      log_tau_output = map2_head f (log_tau_output a) (log_tau_output b)\<rparr>"

definition entries_dense :: "dense \<Rightarrow> vec" where
  "entries_dense l = concat (kernel l) @ bias l"

definition entries_head :: "head \<Rightarrow> vec" where
  "entries_head l = hkernel l @ [hbias l]"

definition entries :: "apc_weights \<Rightarrow> vec" where
  "entries w =
     entries_dense (f1 w) @ entries_dense (f2 w) @ entries_head (mu_output w)
     @ entries_head (log_sigma_output w) @ entries_head (skew_output w)
     @ entries_head (log_tau_output w)"

text \<open>
  \<open>tf.clip_by_global_norm(gradients, clip_norm)\<close> returns the gradients, each entry
  multiplied by \<open>clip_norm * minimum (1 / global_norm) (1 / clip_norm)\<close>, and the global
  norm, the square root of the sum of the squares of all entries.  (When the global
  norm is zero every entry is zero, and so is its product with any factor.)
\<close>

definition global_norm :: "apc_weights \<Rightarrow> real" where
  "global_norm g = sqrt (sum_list (map (\<lambda>x. x\<^sup>2) (entries g)))"

definition clip_by_global_norm :: "apc_weights \<Rightarrow> real \<Rightarrow> apc_weights \<times> real" where
  "clip_by_global_norm g clip_norm =
     (map_weights (\<lambda>x. x * (clip_norm * min (1 / global_norm g) (1 / clip_norm))) g, global_norm g)"

text \<open>
  The optimizer \<open>Adam\<close>: its hyperparameters, the count of the steps applied and the
  two slots (absent until the first step, then created as zeros).
\<close>

record adam =
  learning_rate :: real
  beta_1 :: real
  beta_2 :: real
  epsilon :: real
  iterations :: nat
  slot_m :: "apc_weights option"
  slot_v :: "apc_weights option"

definition Adam :: "real \<Rightarrow> adam" where
  "Adam lr =
     \<lparr>learning_rate = lr, beta_1 = 9 / 10, beta_2 = 999 / 1000, epsilon = 1 / 10000000,
      iterations = 0, slot_m = None, slot_v = None\<rparr>"

definition slot_or_zeros :: "apc_weights option \<Rightarrow> apc_weights \<Rightarrow> apc_weights" where
  "slot_or_zeros s w = (case s of None \<Rightarrow> map_weights (\<lambda>x. 0) w | Some v \<Rightarrow> v)"

definition apply_gradients :: "adam \<Rightarrow> apc_weights \<Rightarrow> apc_weights \<Rightarrow> apc_weights \<times> adam" where
  "apply_gradients opt g w =
     (let t = iterations opt + 1;
          lr_t = learning_rate opt * sqrt (1 - beta_2 opt ^ t) / (1 - beta_1 opt ^ t);
          m = map2_weights (\<lambda>m gi. m + (gi - m) * (1 - beta_1 opt)) (slot_or_zeros (slot_m opt) w) g;
          v = map2_weights (\<lambda>v gi. v + (gi\<^sup>2 - v) * (1 - beta_2 opt)) (slot_or_zeros (slot_v opt) w) g;
          update = map2_weights (\<lambda>mi vi. lr_t * mi / (sqrt vi + epsilon opt)) m v
      in (map2_weights (\<lambda>x u. x - u) w update,
          opt\<lparr>iterations := t, slot_m := Some m, slot_v := Some v\<rparr>))"

text \<open>
  What the notebook takes from outside: the reverse-mode gradient of a loss with
  respect to the variables (\<open>GradientTape.gradient\<close>), the random initial kernels, the
  shuffling of the data set in each epoch, the pseudo-random normal draws (after
  \<open>np.random.seed(42)\<close>), the order in which the sorting routine leaves the positions
  of a list of keys, the file \<open>matif_osr_futs.csv\<close> as \<open>read_csv\<close> reads it (if it
  is there), and which modules can be imported.
\<close>

record env =
  gradient :: "(apc_weights \<Rightarrow> real) \<Rightarrow> apc_weights \<Rightarrow> apc_weights"
  glorot_uniform :: "nat \<Rightarrow> nat \<Rightarrow> nat \<Rightarrow> real"
  shuffle :: "nat \<Rightarrow> (vec \<times> real) list \<Rightarrow> (vec \<times> real) list"
  normal_draws :: "nat \<Rightarrow> real"
  argsort :: "real list \<Rightarrow> nat list"
  csv_file :: "frame option"
  importable :: "string \<Rightarrow> bool"

text \<open>
  The loss of a batch: minus the mean of the log-density of the skew-t distribution
  with the parameters of the network at the features, evaluated at the target.
\<close>

definition nll :: "normalization \<Rightarrow> apc_weights \<Rightarrow> (vec \<times> real) list \<Rightarrow> real" where
  "nll n w batch =
     - mean (map (\<lambda>(bx, by). case call n w bx of (mu, s, k, tau) \<Rightarrow> log_prob (skew_t mu s k tau) by) batch)"

text \<open>
  \<open>step\<close>: the loss under the tape, its gradient clipped to global norm 2, and the
  clipped gradient applied by the optimizer; the loss is returned.
\<close>

definition step ::
  "env \<Rightarrow> normalization \<Rightarrow> apc_weights \<Rightarrow> adam \<Rightarrow> (vec \<times> real) list \<Rightarrow> real \<times> apc_weights \<times> adam" where
  "step e n w opt batch =
     (let loss = nll n w batch;
          g = fst (clip_by_global_norm (gradient e (\<lambda>w'. nll n w' batch) w) 2)
      in (loss, apply_gradients opt g w))"

section \<open>The model object\<close>

text \<open>
  The normalization layer is adapted to the feature matrix (one mean and one
  population variance per feature) or not adapted; a layer that was never adapted
  normalises with mean 0 and variance 1 (in the releases of Keras that build such a
  layer when it is called; the notebook creates the model only after \<open>adapt\<close>).
\<close>

datatype norm_layer = Unadapted | Adapted normalization

definition column_of :: "mat \<Rightarrow> nat \<Rightarrow> vec" where
  "column_of X j = map (\<lambda>row. row ! j) X"

definition input_dim :: "mat \<Rightarrow> nat" where
  "input_dim X = (case X of [] \<Rightarrow> 0 | row # _ \<Rightarrow> length row)"

definition adapt :: "mat \<Rightarrow> norm_layer" where
  "adapt X =
     Adapted \<lparr>nmean = map (\<lambda>j. mean (column_of X j)) [0..<input_dim X],
              nvariance = map (\<lambda>j. (std_ddof 0 (column_of X j))\<^sup>2) [0..<input_dim X]\<rparr>"

definition norm_stats :: "norm_layer \<Rightarrow> nat \<Rightarrow> normalization" where
  "norm_stats l d =
     (case l of Adapted n \<Rightarrow> n
      | Unadapted \<Rightarrow> \<lparr>nmean = replicate d 0, nvariance = replicate d 1\<rparr>)"

text \<open>
  \<open>APCSkewT(hidden)\<close> creates its layers without weights: a Keras layer creates its
  kernel (by the Glorot uniform initializer) and its bias (zeros; the constant
  \<open>log 1\<close> for the two logarithmic heads) when the model is first called.  Calling
  the model builds it if needed and returns one parameter tuple per row.
\<close>

record apc_model =
  m_norm :: norm_layer
  m_hidden :: nat
  m_weights :: "apc_weights option"

definition APCSkewT :: "norm_layer \<Rightarrow> nat \<Rightarrow> apc_model" where
  "APCSkewT n hidden = \<lparr>m_norm = n, m_hidden = hidden, m_weights = None\<rparr>"

definition initial_dense :: "env \<Rightarrow> nat \<Rightarrow> nat \<Rightarrow> nat \<Rightarrow> dense" where
  "initial_dense e layer d units =
     \<lparr>kernel = map (\<lambda>i. map (\<lambda>j. glorot_uniform e layer i j) [0..<units]) [0..<d],
      bias = replicate units 0\<rparr>"

definition initial_head :: "env \<Rightarrow> nat \<Rightarrow> nat \<Rightarrow> real \<Rightarrow> head" where
  "initial_head e layer d b = \<lparr>hkernel = map (\<lambda>i. glorot_uniform e layer i 0) [0..<d], hbias = b\<rparr>"

definition initial_weights :: "env \<Rightarrow> nat \<Rightarrow> nat \<Rightarrow> apc_weights" where
  "initial_weights e d hidden =
     \<lparr>f1 = initial_dense e 0 d hidden, f2 = initial_dense e 1 hidden hidden,
      mu_output = initial_head e 2 hidden 0, log_sigma_output = initial_head e 3 hidden (ln 1),
      skew_output = initial_head e 4 hidden 0, log_tau_output = initial_head e 5 hidden (ln 1)\<rparr>"

definition ensure_built :: "env \<Rightarrow> apc_model \<Rightarrow> nat \<Rightarrow> apc_weights \<times> apc_model" where
  "ensure_built e m d =
     (case m_weights m of
        Some w \<Rightarrow> (w, m)
      | None \<Rightarrow> (initial_weights e d (m_hidden m),
                 m\<lparr>m_weights := Some (initial_weights e d (m_hidden m))\<rparr>))"

definition keras_call ::
  "env \<Rightarrow> apc_model \<Rightarrow> mat \<Rightarrow> (real \<times> real \<times> real \<times> real) list \<times> apc_model" where
  "keras_call e m X =
     (case ensure_built e m (input_dim X) of
        (w, m') \<Rightarrow> (map (call (norm_stats (m_norm m') (input_dim X)) w) X, m'))"

section \<open>The notebook's kernel\<close>

text \<open>
  What a cell shows: a printed line, a printed frame or shape or epoch loss, or a
  figure (at \<open>plt.show()\<close>).
\<close>

datatype shown =
    Print string
  | PrintFrame frame
  | PrintShape nat nat
  | PrintEpoch nat real
  | Figure string

text \<open>The lines that the cells print.\<close>

definition msg_loaded :: string where
  "msg_loaded = ''Data loaded successfully. Sample of raw_df:''"

definition msg_not_found :: string where
  "msg_not_found = ''Error: 'matif_osr_futs.csv' not found. Please ensure the file is in the correct directory.''"

definition msg_dummy :: string where
  "msg_dummy = ''Creating dummy data for demonstration purposes. Replace this with your actual data loading.''"

definition msg_no_column :: string where
  "msg_no_column = ''Error: 'rolled_close' column not found in the loaded data. Cannot proceed with feature engineering.''"

definition msg_skip_preparation :: string where
  "msg_skip_preparation = ''Skipping target and feature preparation due to empty df_4_params.''"

definition msg_skip_training :: string where
  "msg_skip_training = ''Skipping training loop as no data is available.''"

definition msg_skip_fan :: string where
  "msg_skip_fan = ''Skipping quantile fan plot as no data is available or df_4_params is empty.''"

definition msg_skip_pit :: string where
  "msg_skip_pit = ''Skipping PIT histogram as no data is available or df_4_params is empty.''"

text \<open>The titles of the three figures.\<close>

definition fig_training :: string where
  "fig_training = ''Training NLL Over Epochs''"

definition fig_fan :: string where
  "fig_fan = ''In-sample Quantile Fan for MATIF Rapeseed Prices''"

definition fig_pit :: string where
  "fig_pit = ''PIT Histogram (Probability Integral Transform)''"

text \<open>
  The global names of the kernel: the names bound to modules (with the module each
  is bound to), the variables of the notebook (\<open>None\<close> while unbound), and what the
  cells have shown so far.  Running a cell gives the kernel after the cell and the
  exception that ended it, if one did; what the cell bound before the exception stays
  bound.
\<close>

record kernel =
  g_modules :: "string \<Rightarrow> string option"
  g_raw_df :: "frame option"
  g_df_4_params :: "frame option"
  g_y_raw :: "vec option"
  g_X_raw :: "mat option"
  g_y_mean :: "real option"
  g_y_std :: "real option"
  g_y_z :: "vec option"
  g_norm :: "norm_layer option"
  g_model :: "apc_model option"
  g_opt :: "adam option"
  g_loss_log :: "real list option"
  g_dist :: "distribution list option"
  outputs :: "shown list"

definition fresh_kernel :: kernel where
  "fresh_kernel =
     \<lparr>g_modules = (\<lambda>x. None), g_raw_df = None, g_df_4_params = None, g_y_raw = None,
      g_X_raw = None, g_y_mean = None, g_y_std = None, g_y_z = None, g_norm = None,
      g_model = None, g_opt = None, g_loss_log = None, g_dist = None, outputs = []\<rparr>"

definition emit :: "shown \<Rightarrow> kernel \<Rightarrow> kernel" where
  "emit out k = k\<lparr>outputs := outputs k @ [out]\<rparr>"

definition lookup_module :: "kernel \<Rightarrow> string \<Rightarrow> pyerror + string" where
  "lookup_module k x = (case g_modules k x of None \<Rightarrow> Inl (NameError x) | Some m \<Rightarrow> Inr m)"

subsection \<open>The imports cell\<close>

text \<open>
  The statements of the first cell: \<open>import m as a\<close>, and the assignment of a tuple of
  expressions to a tuple of names.  The right-hand side is evaluated from left to
  right before any name is bound; a name that is not bound raises \<open>NameError\<close>.
  Of the attributes that the cell reads, \<open>distributions\<close> and \<open>bijectors\<close>, the
  module \<open>tensorflow_probability\<close> has both and no other module that the cell imports
  has either; reading an attribute that a module lacks raises \<open>AttributeError\<close>.
\<close>

datatype expr = Name string | Attribute expr string

datatype stmt = Import string string | AssignTuple "string list" "expr list"

definition module_has :: "string \<Rightarrow> string \<Rightarrow> bool" where
  "module_has m a =
     (m = ''tensorflow_probability'' \<and> (a = ''distributions'' \<or> a = ''bijectors''))"

fun eval_expr :: "kernel \<Rightarrow> expr \<Rightarrow> pyerror + string" where
  "eval_expr k (Name x) = lookup_module k x"
| "eval_expr k (Attribute ex a) =
     bind (eval_expr k ex) (\<lambda>m. if module_has m a then Inr (m @ ''.'' @ a) else Inl (AttributeError a))"

fun eval_all :: "kernel \<Rightarrow> expr list \<Rightarrow> pyerror + string list" where
  "eval_all k [] = Inr []"
| "eval_all k (ex # exs) = bind (eval_expr k ex) (\<lambda>v. bind (eval_all k exs) (\<lambda>vs. Inr (v # vs)))"

fun exec_stmt :: "env \<Rightarrow> stmt \<Rightarrow> kernel \<Rightarrow> kernel \<times> pyerror option" where
  "exec_stmt e (Import m a) k =
     (if importable e m then (k\<lparr>g_modules := (g_modules k)(a \<mapsto> m)\<rparr>, None)
      else (k, Some (ModuleNotFoundError m)))"
| "exec_stmt e (AssignTuple xs exs) k =
     (case eval_all k exs of
        Inl err \<Rightarrow> (k, Some err)
      | Inr vs \<Rightarrow>
          if length vs = length xs
          then (k\<lparr>g_modules := fold (\<lambda>(x, v) g. g(x \<mapsto> v)) (zip xs vs) (g_modules k)\<rparr>, None)
          else (k, Some ValueError))"

fun exec_stmts :: "env \<Rightarrow> stmt list \<Rightarrow> kernel \<Rightarrow> kernel \<times> pyerror option" where
  "exec_stmts e [] k = (k, None)"
| "exec_stmts e (s # ss) k =
     (case exec_stmt e s k of
        (k', None) \<Rightarrow> exec_stmts e ss k'
      | (k', Some err) \<Rightarrow> (k', Some err))"

definition imported_modules :: "string list" where
  "imported_modules =
     [''tensorflow'', ''tensorflow_probability'', ''numpy'', ''pandas'', ''matplotlib.pyplot'', ''ta'']"

definition imports_cell_source :: "stmt list" where
  "imports_cell_source =
     [Import ''tensorflow'' ''tf'',
      Import ''tensorflow_probability'' ''tfp'',
      Import ''numpy'' ''np'',
      Import ''pandas'' ''pd'',
      Import ''matplotlib.pyplot'' ''plt'',
      Import ''ta'' ''ta'',
      AssignTuple [''tfd'', ''tfb'']
        [Attribute (Name ''tfp'') ''distributions'', Attribute (Name ''tfb'') ''bijectors'']]"

definition imports_cell :: "env \<Rightarrow> kernel \<Rightarrow> kernel \<times> pyerror option" where
  "imports_cell e k = exec_stmts e imports_cell_source k"

text \<open>
  A call of \<open>skew_t\<close> in the kernel looks up \<open>tfd\<close> (for \<open>tfd.StudentT\<close>) and then \<open>tfb\<close>
  (for \<open>tfb.Chain\<close>); the classes are there when the names are bound to the
  distributions and the bijectors of the probability library.
\<close>

definition resolve_skew_t_names :: "kernel \<Rightarrow> pyerror option" where
  "resolve_skew_t_names k =
     (case lookup_module k ''tfd'' of
        Inl err \<Rightarrow> Some err
      | Inr d \<Rightarrow>
          if d \<noteq> ''tensorflow_probability.distributions'' then Some (AttributeError ''StudentT'')
          else (case lookup_module k ''tfb'' of
                  Inl err \<Rightarrow> Some err
                | Inr b \<Rightarrow>
                    if b \<noteq> ''tensorflow_probability.bijectors'' then Some (AttributeError ''Chain'')
                    else None))"

definition kernel_skew_t :: "kernel \<Rightarrow> real \<Rightarrow> real \<Rightarrow> real \<Rightarrow> real \<Rightarrow> pyerror + distribution" where
  "kernel_skew_t k mu sigma skew tail =
     (case resolve_skew_t_names k of
        Some err \<Rightarrow> Inl err
      | None \<Rightarrow> Inr (skew_t mu sigma skew tail))"

subsection \<open>The data preparation cell\<close>

text \<open>
  \<open>df.set_index(c)\<close> makes the column \<open>c\<close> the index and removes it from the columns;
  \<open>df.sort_index()\<close> orders the rows by their label, the rows without a date last
  and in their order; the routine that sorts is not stable, so among rows of the same
  date the order is the one the routine leaves (any order of the positions that
  sorts the keys); \<open>pd.to_datetime\<close> leaves a day number as it is.
\<close>

definition set_index :: "frame \<Rightarrow> string \<Rightarrow> pyerror + frame" where
  "set_index df c =
     bind (getitem df c) (\<lambda>labels.
       Inr \<lparr>index_name = Some c, index_labels = labels,
            columns = filter (\<lambda>(n, v). n \<noteq> c) (columns df)\<rparr>)"

definition take_rows :: "nat list \<Rightarrow> frame \<Rightarrow> frame" where
  "take_rows order df =
     df\<lparr>index_labels := map (\<lambda>i. index_labels df ! i) order,
        columns := map (\<lambda>(c, v). (c, map (\<lambda>i. v ! i) order)) (columns df)\<rparr>"

definition label_key :: "frame \<Rightarrow> nat \<Rightarrow> real" where
  "label_key df i = (case index_labels df ! i of Some d \<Rightarrow> d | None \<Rightarrow> 0)"

definition sorting_order :: "real list \<Rightarrow> nat list \<Rightarrow> bool" where
  "sorting_order keys p =
     (distinct p \<and> set p = {0..<length keys} \<and> sorted (map (\<lambda>j. keys ! j) p))"

definition sort_index :: "env \<Rightarrow> frame \<Rightarrow> frame" where
  "sort_index e df =
     (let dated = filter (\<lambda>i. index_labels df ! i \<noteq> None) [0..<nrows df];
          undated = filter (\<lambda>i. index_labels df ! i = None) [0..<nrows df];
          keys = map (label_key df) dated;
          order = (if sorting_order keys (argsort e keys) then map (\<lambda>j. dated ! j) (argsort e keys)
                   else sort_key (label_key df) dated)
      in take_rows (order @ undated) df)"

definition head5 :: "frame \<Rightarrow> frame" where
  "head5 df = take_rows [0..<min 5 (nrows df)] df"

definition index_by_date :: "env \<Rightarrow> frame \<Rightarrow> pyerror + frame" where
  "index_by_date e df =
     bind (getitem df ''date'') (\<lambda>d.
     bind (set_index (setitem df ''date'' d) ''date'') (\<lambda>df'.
     Inr (sort_index e df')))"

text \<open>
  The substitute data: 1000 days from 2022-01-03 (day 18995), and the prices
  \<open>500 + cumsum(normal(0, 5, 1000))\<close>.
\<close>

fun cumsum_from :: "real \<Rightarrow> vec \<Rightarrow> vec" where
  "cumsum_from acc [] = []"
| "cumsum_from acc (x # xs) = (acc + x) # cumsum_from (acc + x) xs"

definition dummy_frame :: "env \<Rightarrow> frame" where
  "dummy_frame e =
     (let n_samples = 1000;
          initial_price = 500;
          price_series = map (\<lambda>s. initial_price + s) (cumsum_from 0 (map (normal_draws e) [0..<n_samples]));
          dates = map (\<lambda>i. 18995 + real i) [0..<n_samples]
      in \<lparr>index_name = None, index_labels = map (\<lambda>i. Some (real i)) [0..<n_samples],
          columns = [(''date'', map Some dates), (''rolled_close'', map Some price_series)]\<rparr>)"

definition load_data :: "env \<Rightarrow> kernel \<Rightarrow> kernel \<times> pyerror option" where
  "load_data e k =
     (case lookup_module k ''pd'' of
        Inl err \<Rightarrow> (k, Some err)
      | Inr pd \<Rightarrow>
          (case csv_file e of
             Some f \<Rightarrow>
               (case index_by_date e f of
                  Inl err \<Rightarrow> (k\<lparr>g_raw_df := Some f\<rparr>, Some err)
                | Inr df \<Rightarrow>
                    (emit (PrintFrame (head5 df))
                       (emit (Print msg_loaded)
                          (k\<lparr>g_raw_df := Some df\<rparr>)), None))
           | None \<Rightarrow>
               (let k1 = emit (Print msg_dummy)
                           (emit (Print msg_not_found) k)
                in case lookup_module k1 ''np'' of
                     Inl err \<Rightarrow> (k1, Some err)
                   | Inr np \<Rightarrow>
                       (case index_by_date e (dummy_frame e) of
                          Inl err \<Rightarrow> (k1\<lparr>g_raw_df := Some (dummy_frame e)\<rparr>, Some err)
                        | Inr df \<Rightarrow> (emit (PrintFrame (head5 df)) (k1\<lparr>g_raw_df := Some df\<rparr>), None)))))"

definition feature_engineering :: "kernel \<Rightarrow> kernel \<times> pyerror option" where
  "feature_engineering k =
     (case g_raw_df k of
        None \<Rightarrow> (k, Some (NameError ''raw_df''))
      | Some raw \<Rightarrow>
          if ''rolled_close'' \<in> set (column_names raw) then
            (case lookup_module k ''ta'' of
               Inl err \<Rightarrow> (k, Some err)
             | Inr ta \<Rightarrow>
                 (case compute_technical_features raw ''rolled_close'' of
                    Inl err \<Rightarrow> (k, Some err)
                  | Inr df \<Rightarrow>
                      (emit (PrintFrame (head5 df))
                         (emit (PrintShape (nrows df) (length (columns df)))
                            (k\<lparr>g_df_4_params := Some df\<rparr>)), None)))
          else
            (emit (Print msg_no_column)
               k\<lparr>g_df_4_params := Some empty_frame\<rparr>, None))"

text \<open>
  The arrays of the target and of the features.  A frame after \<open>dropna\<close> has no
  \<open>NaN\<close>, so the numbers of a column are all its cells.  The target is standardised
  with its mean and its population standard deviation.
\<close>

definition to_numpy :: "cell list \<Rightarrow> vec" where
  "to_numpy cs = present cs"

fun getitems :: "frame \<Rightarrow> string list \<Rightarrow> pyerror + cell list list" where
  "getitems df [] = Inr []"
| "getitems df (c # cs) = bind (getitem df c) (\<lambda>v. bind (getitems df cs) (\<lambda>vs. Inr (v # vs)))"

definition rows_of :: "nat \<Rightarrow> vec list \<Rightarrow> mat" where
  "rows_of n cols = map (\<lambda>i. map (\<lambda>col. col ! i) cols) [0..<n]"

definition array_size :: "mat \<Rightarrow> nat" where
  "array_size X = sum_list (map length X)"

definition target_and_features :: "kernel \<Rightarrow> kernel \<times> pyerror option" where
  "target_and_features k =
     (case g_df_4_params k of
        None \<Rightarrow> (k, Some (NameError ''df_4_params''))
      | Some df \<Rightarrow>
          if \<not> is_empty df then
            (case prepare_target df ''rolled_close'' False of
               Inl err \<Rightarrow> (k, Some err)
             | Inr target \<Rightarrow>
                 (let y = to_numpy target; k1 = k\<lparr>g_y_raw := Some y\<rparr> in
                  case getitems df feature_names of
                    Inl err \<Rightarrow> (k1, Some err)
                  | Inr cols \<Rightarrow>
                      (let X = rows_of (nrows df) (map to_numpy cols);
                           k2 = k1\<lparr>g_X_raw := Some X, g_y_mean := Some (mean y),
                                   g_y_std := Some (std_ddof 0 y),
                                   g_y_z := Some (map (\<lambda>v. (v - mean y) / std_ddof 0 y) y)\<rparr>
                       in case lookup_module k2 ''tf'' of
                            Inl err \<Rightarrow> (k2, Some err)
                          | Inr tf \<Rightarrow> (k2\<lparr>g_norm := Some (adapt X)\<rparr>, None))))
          else
            (let k1 = emit (Print msg_skip_preparation) k in
             case lookup_module k1 ''np'' of
               Inl err \<Rightarrow> (k1, Some err)
             | Inr np \<Rightarrow>
                 (let k2 = k1\<lparr>g_y_raw := Some [], g_X_raw := Some [], g_y_z := Some []\<rparr> in
                  case lookup_module k2 ''tf'' of
                    Inl err \<Rightarrow> (k2, Some err)
                  | Inr tf \<Rightarrow> (k2\<lparr>g_norm := Some Unadapted\<rparr>, None))))"

text \<open>Cells and parts of cells run one after the other until one raises.\<close>

definition and_then ::
  "(kernel \<Rightarrow> kernel \<times> pyerror option) \<Rightarrow> (kernel \<Rightarrow> kernel \<times> pyerror option)
     \<Rightarrow> kernel \<Rightarrow> kernel \<times> pyerror option" where
  "and_then a b k = (case a k of (k', None) \<Rightarrow> b k' | (k', Some err) \<Rightarrow> (k', Some err))"

definition data_cell :: "env \<Rightarrow> kernel \<Rightarrow> kernel \<times> pyerror option" where
  "data_cell e = and_then (load_data e) (and_then feature_engineering target_and_features)"

subsection \<open>The training cell\<close>

text \<open>
  One call of \<open>step\<close> in the kernel: the model is called on the batch (which builds
  it on the first call), \<open>skew_t\<close> resolves its names, and then the step proper runs
  on the variables; the model and the optimizer are objects that the step changes in
  place.
\<close>

definition kernel_step ::
  "env \<Rightarrow> kernel \<Rightarrow> apc_model \<times> adam \<Rightarrow> (vec \<times> real) list \<Rightarrow> (apc_model \<times> adam) \<times> (pyerror + real)" where
  "kernel_step e k st batch =
     (case st of (m, opt) \<Rightarrow>
        (case ensure_built e m (input_dim (map fst batch)) of (w, m') \<Rightarrow>
           (case resolve_skew_t_names k of
              Some err \<Rightarrow> ((m', opt), Inl err)
            | None \<Rightarrow>
                (case step e (norm_stats (m_norm m') (input_dim (map fst batch))) w opt batch of
                   (loss, w', opt') \<Rightarrow> ((m'\<lparr>m_weights := Some w'\<rparr>, opt'), Inr loss)))))"

text \<open>\<open>batch(Suc n)\<close>: consecutive groups of \<open>Suc n\<close> elements, the last one shorter.\<close>

fun batched :: "nat \<Rightarrow> 'a list \<Rightarrow> 'a list list" where
  "batched n [] = []"
| "batched n (x # xs) = (x # take n xs) # batched n (drop n xs)"

fun run_batches ::
  "env \<Rightarrow> kernel \<Rightarrow> apc_model \<times> adam \<Rightarrow> (vec \<times> real) list list \<Rightarrow> real list
     \<Rightarrow> (apc_model \<times> adam) \<times> (pyerror + real list)" where
  "run_batches e k st [] losses = (st, Inr losses)"
| "run_batches e k st (b # bs) losses =
     (case kernel_step e k st b of
        (st', Inl err) \<Rightarrow> (st', Inl err)
      | (st', Inr loss) \<Rightarrow> run_batches e k st' bs (losses @ [loss]))"

text \<open>
  The epochs \<open>ep, ep + 1, ...\<close> that remain: each shuffles the data set, runs its
  batches, appends the mean loss to \<open>loss_log\<close> and prints it.
\<close>

fun run_epochs ::
  "env \<Rightarrow> (vec \<times> real) list \<Rightarrow> nat \<Rightarrow> nat \<Rightarrow> kernel \<Rightarrow> apc_model \<times> adam \<Rightarrow> real list
     \<Rightarrow> kernel \<times> pyerror option" where
  "run_epochs e ds ep 0 k st logged =
     (k\<lparr>g_model := Some (fst st), g_opt := Some (snd st), g_loss_log := Some logged\<rparr>, None)"
| "run_epochs e ds ep (Suc remaining) k st logged =
     (case lookup_module k ''np'' of
        Inl err \<Rightarrow>
          (k\<lparr>g_model := Some (fst st), g_opt := Some (snd st), g_loss_log := Some logged\<rparr>, Some err)
      | Inr np \<Rightarrow>
          (case run_batches e k st (batched 63 (shuffle e ep ds)) [] of
             (st', Inl err) \<Rightarrow>
               (k\<lparr>g_model := Some (fst st'), g_opt := Some (snd st'), g_loss_log := Some logged\<rparr>, Some err)
           | (st', Inr losses) \<Rightarrow>
               run_epochs e ds (Suc ep) remaining (emit (PrintEpoch (Suc ep) (mean losses)) k) st'
                 (logged @ [mean losses])))"

definition training_cell :: "env \<Rightarrow> kernel \<Rightarrow> kernel \<times> pyerror option" where
  "training_cell e k =
     (case g_X_raw k of
        None \<Rightarrow> (k, Some (NameError ''X_raw''))
      | Some X \<Rightarrow>
          if 0 < array_size X then
            (case g_y_z k of
               None \<Rightarrow> (k, Some (NameError ''y_z''))
             | Some yz \<Rightarrow>
                 if 0 < length yz then
                   (case lookup_module k ''tf'' of
                      Inl err \<Rightarrow> (k, Some err)
                    | Inr tf \<Rightarrow>
                        (case g_norm k of
                           None \<Rightarrow> (k, Some (NameError ''norm''))
                         | Some n \<Rightarrow>
                             run_epochs e (zip X yz) 0 30
                               (k\<lparr>g_model := Some (APCSkewT n 32), g_opt := Some (Adam (1 / 1000)),
                                   g_loss_log := Some []\<rparr>)
                               (APCSkewT n 32, Adam (1 / 1000)) []))
                 else
                   (emit (Print msg_skip_training)
                      k\<lparr>g_loss_log := Some []\<rparr>, None))
          else
            (emit (Print msg_skip_training)
               k\<lparr>g_loss_log := Some []\<rparr>, None))"

subsection \<open>The cell of the training curve\<close>

definition loss_plot_cell :: "kernel \<Rightarrow> kernel \<times> pyerror option" where
  "loss_plot_cell k =
     (case lookup_module k ''plt'' of
        Inl err \<Rightarrow> (k, Some err)
      | Inr plt \<Rightarrow>
          (case g_loss_log k of
             None \<Rightarrow> (k, Some (NameError ''loss_log''))
           | Some logged \<Rightarrow> (emit (Figure fig_training) k, None)))"

subsection \<open>The diagnostics cells\<close>

text \<open>
  The condition \<open>X_raw.size > 0 and y_z.size > 0 and not df_4_params.empty\<close> of both
  diagnostics cells, evaluated from left to right.
\<close>

definition diagnostics_guard :: "kernel \<Rightarrow> pyerror + bool" where
  "diagnostics_guard k =
     (case g_X_raw k of
        None \<Rightarrow> Inl (NameError ''X_raw'')
      | Some X \<Rightarrow>
          if 0 < array_size X then
            (case g_y_z k of
               None \<Rightarrow> Inl (NameError ''y_z'')
             | Some yz \<Rightarrow>
                 if 0 < length yz then
                   (case g_df_4_params k of
                      None \<Rightarrow> Inl (NameError ''df_4_params'')
                    | Some df \<Rightarrow> Inr (\<not> is_empty df))
                 else Inr False)
          else Inr False)"

text \<open>
  The quantiles: the model gives parameters of shape (n, 1), so each
  \<open>dist.quantile(p)\<close> has shape (n, 1) and \<open>tf.stack(..., axis=-1)\<close> has shape
  (n, 1, 5).  \<open>q[:, i]\<close> selects index \<open>i\<close> on the second axis, which is there when
  \<open>i\<close> is below the length of that axis.
\<close>

definition stacked_quantiles :: "distribution list \<Rightarrow> real \<Rightarrow> real \<Rightarrow> real list list list" where
  "stacked_quantiles ds y_std y_mean = map (\<lambda>d. [quantile_fan d y_std y_mean]) ds"

definition slice_axis1 :: "real list list list \<Rightarrow> nat \<Rightarrow> pyerror + real list list" where
  "slice_axis1 q i =
     (if list_all (\<lambda>row. i < length row) q then Inr (map (\<lambda>row. row ! i) q)
      else Inl InvalidArgumentError)"

fun plot_quantiles :: "frame \<Rightarrow> real list list list \<Rightarrow> nat list \<Rightarrow> pyerror option" where
  "plot_quantiles df q [] = None"
| "plot_quantiles df q (i # rest) =
     (case getitem df ''date'' of
        Inl err \<Rightarrow> Some err
      | Inr dates \<Rightarrow>
          (case slice_axis1 q i of
             Inl err \<Rightarrow> Some err
           | Inr line \<Rightarrow> plot_quantiles df q rest))"

definition quantile_fan_body :: "env \<Rightarrow> kernel \<Rightarrow> kernel \<times> pyerror option" where
  "quantile_fan_body e k =
     (case g_model k of
        None \<Rightarrow> (k, Some (NameError ''model''))
      | Some m \<Rightarrow>
          (case g_X_raw k of
             None \<Rightarrow> (k, Some (NameError ''X_raw''))
           | Some X \<Rightarrow>
               (case keras_call e m X of (params, m') \<Rightarrow>
                  (let k1 = k\<lparr>g_model := Some m'\<rparr> in
                   case resolve_skew_t_names k1 of
                     Some err \<Rightarrow> (k1, Some err)
                   | None \<Rightarrow>
                       (let ds = map (\<lambda>(mu, s, sk, tau). skew_t mu s sk tau) params;
                            k2 = k1\<lparr>g_dist := Some ds\<rparr>
                        in case lookup_module k2 ''tf'' of
                             Inl err \<Rightarrow> (k2, Some err)
                           | Inr tf \<Rightarrow>
                          (case g_y_std k2 of
                             None \<Rightarrow> (k2, Some (NameError ''y_std''))
                           | Some y_std \<Rightarrow>
                               (case g_y_mean k2 of
                                  None \<Rightarrow> (k2, Some (NameError ''y_mean''))
                                | Some y_mean \<Rightarrow>
                                    (case lookup_module k2 ''plt'' of
                                       Inl err \<Rightarrow> (k2, Some err)
                                     | Inr plt \<Rightarrow>
                                         (case g_df_4_params k2 of
                                            None \<Rightarrow> (k2, Some (NameError ''df_4_params''))
                                          | Some df \<Rightarrow>
                                              (case getitem df ''date'' of
                                                 Inl err \<Rightarrow> (k2, Some err)
                                               | Inr dates \<Rightarrow>
                                                   (case g_y_raw k2 of
                                                      None \<Rightarrow> (k2, Some (NameError ''y_raw''))
                                                    | Some y \<Rightarrow>
                                                        (case plot_quantiles df
                                                                (stacked_quantiles ds y_std y_mean) [0..<5] of
                                                           Some err \<Rightarrow> (k2, Some err)
                                                         | None \<Rightarrow>
                                                             (emit (Figure fig_fan) k2,
                                                              None)))))))))))))"

definition quantile_fan_cell :: "env \<Rightarrow> kernel \<Rightarrow> kernel \<times> pyerror option" where
  "quantile_fan_cell e k =
     (case diagnostics_guard k of
        Inl err \<Rightarrow> (k, Some err)
      | Inr True \<Rightarrow> quantile_fan_body e k
      | Inr False \<Rightarrow>
          (emit (Print msg_skip_fan) k, None))"

text \<open>
  The histogram of the probability integral transform.  \<open>dist.cdf\<close> of the squeezed
  targets broadcasts the distributions, of shape (n, 1), against the targets, of
  shape (n): the result has one row per distribution and one column per target.
  \<open>plt.hist\<close> reads each column as a data set and, given one colour, raises
  \<open>ValueError\<close> unless there is one data set.
\<close>

fun cdf :: "distribution \<Rightarrow> real \<Rightarrow> real" where
  "cdf (StudentT df loc scale) y =
     (if df = 3 then student_t3_cdf ((y - loc) / scale) else undefined)"
| "cdf (TransformedDistribution d b) y =
     (if is_increasing b then cdf d (inverse_bij b y) else 1 - cdf d (inverse_bij b y))"

definition pit_body :: "kernel \<Rightarrow> kernel \<times> pyerror option" where
  "pit_body k =
     (case g_dist k of
        None \<Rightarrow> (k, Some (NameError ''dist''))
      | Some ds \<Rightarrow>
          (case g_y_z k of
             None \<Rightarrow> (k, Some (NameError ''y_z''))
           | Some yz \<Rightarrow>
               (let pit = map (\<lambda>d. map (cdf d) yz) ds in
                case lookup_module k ''plt'' of
                  Inl err \<Rightarrow> (k, Some err)
                | Inr plt \<Rightarrow>
                    if input_dim pit = 1 then
                      (emit (Figure fig_pit) k, None)
                    else (k, Some ValueError))))"

definition pit_cell :: "kernel \<Rightarrow> kernel \<times> pyerror option" where
  "pit_cell k =
     (case diagnostics_guard k of
        Inl err \<Rightarrow> (k, Some err)
      | Inr True \<Rightarrow> pit_body k
      | Inr False \<Rightarrow>
          (emit (Print msg_skip_pit) k, None))"

section \<open>Auxiliary definitions for the statements about the cells\<close>

text \<open>The substitute prices, and the substitute frame once it is indexed by date.\<close>

definition dummy_prices :: "env \<Rightarrow> vec" where
  "dummy_prices e = map (\<lambda>s. 500 + s) (cumsum_from 0 (map (normal_draws e) [0..<1000]))"

definition dummy_raw_df :: "env \<Rightarrow> frame" where
  "dummy_raw_df e =
     \<lparr>index_name = Some ''date'', index_labels = map (\<lambda>i. Some (18995 + real i)) [0..<1000],
      columns = [(''rolled_close'', map Some (dummy_prices e))]\<rparr>"

text \<open>
  The cells downstream of the data, in the order of the notebook: the data
  preparation, the training, the training curve and the two diagnostics cells.
\<close>

definition downstream :: "env \<Rightarrow> kernel \<Rightarrow> kernel \<times> pyerror option" where
  "downstream e =
     and_then (data_cell e) (and_then (training_cell e) (and_then loss_plot_cell
       (and_then (quantile_fan_cell e) pit_cell)))"

text \<open>
  The notebook: its cells that act on the kernel, in order (the other cells define
  functions and the class).  \<open>run_all\<close> runs the cells until one raises;
  \<open>run_each\<close> runs every cell in turn, whatever the cells before it raised, as a user
  does who goes on after an exception.
\<close>

definition notebook_cells :: "env \<Rightarrow> (kernel \<Rightarrow> kernel \<times> pyerror option) list" where
  "notebook_cells e =
     [imports_cell e, data_cell e, training_cell e, loss_plot_cell, quantile_fan_cell e, pit_cell]"

fun run_all :: "(kernel \<Rightarrow> kernel \<times> pyerror option) list \<Rightarrow> kernel \<Rightarrow> kernel \<times> pyerror option" where
  "run_all [] k = (k, None)"
| "run_all (c # cs) k = (case c k of (k', None) \<Rightarrow> run_all cs k' | (k', Some err) \<Rightarrow> (k', Some err))"

fun run_each :: "(kernel \<Rightarrow> kernel \<times> pyerror option) list \<Rightarrow> kernel \<Rightarrow> kernel" where
  "run_each [] k = k"
| "run_each (c # cs) k = run_each cs (fst (c k))"

text \<open>
  A kernel in which \<open>skew_t\<close> cannot resolve its names and no diagnostics has been
  made: \<open>tfd\<close> and \<open>tfb\<close> are unbound, \<open>dist\<close> is unbound, and neither the quantile
  fan nor the histogram has been shown.
\<close>

definition diagnostics_unreached :: "kernel \<Rightarrow> bool" where
  "diagnostics_unreached k =
     (g_modules k ''tfd'' = None \<and> g_modules k ''tfb'' = None \<and> g_dist k = None
      \<and> Figure fig_fan \<notin> set (outputs k) \<and> Figure fig_pit \<notin> set (outputs k))"

section \<open>Environments and kernels for the witnesses\<close>

text \<open>An environment in which every module can be imported and the data file is absent.\<close>

definition demo_env :: env where
  "demo_env =
     \<lparr>gradient = (\<lambda>f w. w), glorot_uniform = (\<lambda>l i j. 0), shuffle = (\<lambda>ep xs. xs),
      normal_draws = (\<lambda>i. 0), argsort = (\<lambda>keys. [0..<length keys]), csv_file = None,
      importable = (\<lambda>m. True)\<rparr>"

text \<open>The kernel after the imports cell, and a data file without a price column.\<close>

definition demo_kernel :: kernel where
  "demo_kernel = fst (imports_cell demo_env fresh_kernel)"

definition demo_csv_no_price :: frame where
  "demo_csv_no_price =
     \<lparr>index_name = None, index_labels = [Some 0, Some 1],
      columns = [(''date'', map Some [19000, 19001]), (''close'', [Some 10, Some 11])]\<rparr>"

text \<open>A model that has been built, and a kernel that holds it.\<close>

definition demo_model :: apc_model where
  "demo_model = \<lparr>m_norm = Unadapted, m_hidden = 1, m_weights = Some (initial_weights demo_env 6 1)\<rparr>"

definition demo_trained_kernel :: kernel where
  "demo_trained_kernel = demo_kernel\<lparr>g_model := Some demo_model\<rparr>"

text \<open>
  Variables of a model with six inputs and one hidden unit whose two logarithmic
  heads have the bias -200.
\<close>

definition underflow_weights :: apc_weights where
  "underflow_weights =
     (initial_weights demo_env 6 1)
       \<lparr>log_sigma_output := \<lparr>hkernel = [0], hbias = - 200\<rparr>,
        log_tau_output := \<lparr>hkernel = [0], hbias = - 200\<rparr>\<rparr>"

text \<open>A kernel after the imports cell that holds one row of features and its target.\<close>

definition demo_data_kernel :: kernel where
  "demo_data_kernel =
     demo_kernel\<lparr>g_X_raw := Some [[1, 2, 3, 4, 5, 6]], g_y_z := Some [0], g_norm := Some Unadapted\<rparr>"

section \<open>Properties of the network\<close>

text \<open>
  In exact arithmetic, the four-tuple of \<open>call\<close> has a positive scale, a positive
  tail-weight and a skew between -5 and 5.  The exponential of the real numbers is
  never zero; the one of the 32-bit floating point numbers of the layers is zero
  below about -104, which the statements on the smallest positive number below are
  about.
\<close>

lemma call_exact_parameter_ranges:
  "call n w x =
     (head_apply (mu_output w) (shared_features n w x),
      exp (head_apply (log_sigma_output w) (shared_features n w x)),
      5 * tanh (head_apply (skew_output w) (shared_features n w x)),
      exp (head_apply (log_tau_output w) (shared_features n w x)))
   \<and> 0 < fst (snd (call n w x))
   \<and> - 5 \<le> fst (snd (snd (call n w x)))
   \<and> fst (snd (snd (call n w x))) \<le> 5
   \<and> 0 < snd (snd (snd (call n w x)))"
proof -
  let ?s = "head_apply (skew_output w) (shared_features n w x)"
  have "- 1 < tanh ?s" and "tanh ?s < 1"
    by (rule tanh_real_gt_neg1, rule tanh_real_lt_1)
  then show ?thesis
    by (simp add: call_def Let_def)
qed

lemma exp_ge_power_two: "2 ^ n \<le> exp (real n)"
proof -
  have "(2::real) \<le> exp 1"
    using exp_ge_add_one_self [of "1::real"] by simp
  then have "(2::real) ^ n \<le> exp 1 ^ n"
    by (intro power_mono) simp_all
  also have "\<dots> = exp (real n)"
    using exp_of_nat_mult [of n "1::real"] by simp
  finally show ?thesis .
qed

lemma exp_underflows:
  assumes "h \<le> - 151"
  shows "exp h < float32_smallest / 2"
proof -
  have "exp h \<le> exp (- real 151)"
    using assms by simp
  also have "\<dots> = 1 / exp (real 151)"
    by (simp only: exp_minus inverse_eq_divide)
  also have "\<dots> \<le> 1 / 2 ^ 151"
    using exp_ge_power_two [of 151] by (intro divide_left_mono) simp_all
  also have "\<dots> < float32_smallest / 2"
    by (simp add: float32_smallest_def)
  finally show ?thesis .
qed

lemma exp_overflows:
  assumes "128 \<le> h"
  shows "float32_largest < exp h"
proof -
  have "float32_largest < 2 ^ 128"
    by (simp add: float32_largest_def)
  also have "\<dots> \<le> exp (real 128)"
    by (rule exp_ge_power_two)
  also have "\<dots> \<le> exp h"
    using assms by simp
  finally show ?thesis .
qed

text \<open>
  Claim C1.  For every feature vector, \<open>APCSkewT.call\<close> returns the four-tuple
  (location, scale, skew, tail-weight) in which the scale and the tail-weight are the
  exponentials of the \<open>log_sigma_output\<close> and the \<open>log_tau_output\<close> layer and the skew
  is five times the hyperbolic tangent of the \<open>skew_output\<close> layer, between -5 and 5.
  The scale and the tail-weight of the program are not always strictly positive:
  when the layer gives -151 or less, the exact exponential is positive but below
  half the smallest positive float32 number, so the exponential that the program
  computes on float32 is \<open>0.0\<close>; when the layer gives 128 or more, the exact
  exponential is above the largest finite float32 number, and the program computes
  \<open>inf\<close>.
\<close>

theorem call_scale_underflows:
  "call n w x =
     (head_apply (mu_output w) (shared_features n w x),
      exp (head_apply (log_sigma_output w) (shared_features n w x)),
      5 * tanh (head_apply (skew_output w) (shared_features n w x)),
      exp (head_apply (log_tau_output w) (shared_features n w x)))
   \<and> - 5 \<le> fst (snd (snd (call n w x)))
   \<and> fst (snd (snd (call n w x))) \<le> 5
   \<and> (head_apply (log_sigma_output w) (shared_features n w x) \<le> - 151
        \<longrightarrow> 0 < fst (snd (call n w x)) \<and> fst (snd (call n w x)) < float32_smallest / 2)
   \<and> (head_apply (log_tau_output w) (shared_features n w x) \<le> - 151
        \<longrightarrow> 0 < snd (snd (snd (call n w x)))
            \<and> snd (snd (snd (call n w x))) < float32_smallest / 2)
   \<and> (128 \<le> head_apply (log_sigma_output w) (shared_features n w x)
        \<longrightarrow> float32_largest < fst (snd (call n w x)))
   \<and> (128 \<le> head_apply (log_tau_output w) (shared_features n w x)
        \<longrightarrow> float32_largest < snd (snd (snd (call n w x))))"
proof -
  let ?s = "head_apply (skew_output w) (shared_features n w x)"
  have "- 1 < tanh ?s" and "tanh ?s < 1"
    by (rule tanh_real_gt_neg1, rule tanh_real_lt_1)
  then show ?thesis
    using exp_underflows exp_overflows by (simp add: call_def Let_def)
qed

lemma head_apply_zero_kernel: "head_apply \<lparr>hkernel = [0], hbias = b\<rparr> h = b"
  by (cases h) (simp_all add: head_apply_def)

theorem call_scale_underflows_witness:
  "head_apply (log_sigma_output underflow_weights)
       (shared_features (norm_stats Unadapted 6) underflow_weights [1, 2, 3, 4, 5, 6]) \<le> - 151
   \<and> head_apply (log_tau_output underflow_weights)
       (shared_features (norm_stats Unadapted 6) underflow_weights [1, 2, 3, 4, 5, 6]) \<le> - 151
   \<and> fst (snd (call (norm_stats Unadapted 6) underflow_weights [1, 2, 3, 4, 5, 6])) = exp (- 200)
   \<and> fst (snd (call (norm_stats Unadapted 6) underflow_weights [1, 2, 3, 4, 5, 6]))
       < float32_smallest / 2
   \<and> snd (snd (snd (call (norm_stats Unadapted 6) underflow_weights [1, 2, 3, 4, 5, 6])))
       < float32_smallest / 2"
proof -
  let ?n = "norm_stats Unadapted 6" and ?x = "[1, 2, 3, 4, 5, 6] :: real list"
  have s: "head_apply (log_sigma_output underflow_weights) (shared_features ?n underflow_weights ?x)
           = - 200"
    and t: "head_apply (log_tau_output underflow_weights) (shared_features ?n underflow_weights ?x)
           = - 200"
    by (simp_all add: underflow_weights_def head_apply_zero_kernel)
  have c: "fst (snd (call ?n underflow_weights ?x)) = exp (- 200)"
    by (simp add: call_def Let_def s)
  show ?thesis
    using call_scale_underflows [of ?n underflow_weights ?x] s t c by simp
qed

section \<open>Properties of the distribution\<close>

lemma t3_shape_deriv: "DERIV t3_shape u :> 2 / (1 + u\<^sup>2)\<^sup>2"
proof -
  have pos: "0 < 1 + u\<^sup>2"
    by (rule add_pos_nonneg) simp_all
  have eq: "t3_shape = (\<lambda>u. u / (1 + u\<^sup>2) + arctan u)"
    by (rule ext) (simp add: t3_shape_def)
  have "DERIV (\<lambda>u. u / (1 + u\<^sup>2) + arctan u) u
          :> (1 * (1 + u\<^sup>2) - u * (2 * u)) / ((1 + u\<^sup>2) * (1 + u\<^sup>2)) + inverse (1 + u\<^sup>2)"
    by (rule derivative_eq_intros refl | use pos in simp)+
  moreover have "(1 * (1 + u\<^sup>2) - u * (2 * u)) / ((1 + u\<^sup>2) * (1 + u\<^sup>2)) + inverse (1 + u\<^sup>2)
      = 2 / (1 + u\<^sup>2)\<^sup>2"
  proof -
    define d where "d = 1 + u\<^sup>2"
    have d: "0 < d" and u2: "u * u = d - 1"
      using pos by (simp_all add: d_def power2_eq_square)
    have "(1 * d - u * (2 * u)) / (d * d) + inverse d = 2 / d\<^sup>2"
      using d by (simp add: field_simps power2_eq_square u2 mult.assoc [symmetric])
    then show ?thesis by (simp add: d_def)
  qed
  ultimately show ?thesis by (simp add: eq)
qed

lemma t3_shape_strict_mono:
  assumes "a < b"
  shows "t3_shape a < t3_shape b"
proof (rule DERIV_pos_imp_increasing [of a b t3_shape, OF assms])
  fix x :: real
  have "0 < 1 + x\<^sup>2"
    by (rule add_pos_nonneg) simp_all
  then have "0 < 2 / (1 + x\<^sup>2)\<^sup>2"
    by simp
  then show "\<exists>y. DERIV t3_shape x :> y \<and> 0 < y"
    using t3_shape_deriv [of x] by blast
qed

lemma student_t3_cdf_strict_mono: "a < b \<Longrightarrow> student_t3_cdf a < student_t3_cdf b"
proof -
  assume "a < b"
  then have "a / sqrt 3 < b / sqrt 3" by (simp add: divide_strict_right_mono)
  then have "t3_shape (a / sqrt 3) < t3_shape (b / sqrt 3)" by (rule t3_shape_strict_mono)
  then show ?thesis by (simp add: student_t3_cdf_def divide_strict_right_mono)
qed

lemma student_t3_cdf_inj: "inj student_t3_cdf"
  by (rule injI) (metis student_t3_cdf_strict_mono less_irrefl linorder_neqE_linordered_idom)

lemma student_t3_cdf_cont: "continuous_on A student_t3_cdf"
proof -
  have pos: "\<And>x::real. 1 + (x / sqrt 3)\<^sup>2 \<noteq> 0"
    by (metis add_pos_nonneg less_numeral_extra(1) less_numeral_extra(3) zero_le_power2)
  have eq: "student_t3_cdf = (\<lambda>x. 1 / 2 + ((x / sqrt 3) / (1 + (x / sqrt 3)\<^sup>2) + arctan (x / sqrt 3)) / pi)"
    by (rule ext) (simp add: student_t3_cdf_def t3_shape_def)
  show ?thesis unfolding eq
    by (intro continuous_intros) (use pos in auto)
qed


lemma arctan_le_self: "0 \<le> y \<Longrightarrow> arctan y \<le> y"
proof -
  assume y: "0 \<le> y"
  have "(\<lambda>t. t - arctan t) 0 \<le> (\<lambda>t. t - arctan t) y"
  proof (rule DERIV_nonneg_imp_nondecreasing [OF y])
    fix x :: real
    have pos: "0 < 1 + x\<^sup>2" by (rule add_pos_nonneg) simp_all
    have "DERIV (\<lambda>t. t - arctan t) x :> 1 - inverse (1 + x\<^sup>2)"
      by (rule derivative_eq_intros refl | simp)+
    moreover have "0 \<le> 1 - inverse (1 + x\<^sup>2)"
      using pos by (simp add: field_simps)
    ultimately show "\<exists>d. DERIV (\<lambda>t. t - arctan t) x :> d \<and> 0 \<le> d" by blast
  qed
  then show ?thesis by simp
qed

lemma t3_shape_two: "pi / 2 - 1 / 10 \<le> t3_shape 2"
proof -
  have "arctan (1 / 2) = pi / 2 - arctan 2"
    using arctan_inverse [of 2] by simp
  moreover have "arctan (1 / 2) \<le> 1 / 2"
    by (rule arctan_le_self) simp
  ultimately show ?thesis
    by (simp add: t3_shape_def)
qed

lemma t3_shape_minus: "t3_shape (- u) = - t3_shape u"
  by (simp add: t3_shape_def arctan_minus)

lemma student_t3_cdf_upper: "9 / 10 \<le> student_t3_cdf (2 * sqrt 3)"
proof -
  have "pi / 2 - 1 / 10 \<le> t3_shape 2" by (rule t3_shape_two)
  then have "(pi / 2 - 1 / 10) / pi \<le> t3_shape 2 / pi"
    by (simp add: divide_right_mono)
  moreover have "(pi / 2 - 1 / 10) / pi = 1 / 2 - 1 / (10 * pi)"
    by (simp add: field_simps)
  moreover have "1 / (10 * pi) \<le> 1 / 10"
    using pi_ge_two by (simp add: field_simps)
  ultimately have "2 / 5 \<le> t3_shape 2 / pi"
    by linarith
  moreover have "(2 * sqrt 3) / sqrt 3 = (2::real)"
    by simp
  ultimately show ?thesis
    unfolding student_t3_cdf_def by (simp only:)
qed

lemma student_t3_cdf_lower: "student_t3_cdf (- (2 * sqrt 3)) \<le> 1 / 10"
proof -
  have "student_t3_cdf (- (2 * sqrt 3)) = 1 - student_t3_cdf (2 * sqrt 3)"
    using t3_shape_minus [of 2] by (simp add: student_t3_cdf_def)
  then show ?thesis using student_t3_cdf_upper by simp
qed

lemma student_t3_cdf_quantile:
  assumes "1 / 10 \<le> p" "p \<le> 9 / 10"
  shows "student_t3_cdf (student_t3_quantile p) = p"
proof -
  have "\<exists>x. - (2 * sqrt 3) \<le> x \<and> x \<le> 2 * sqrt 3 \<and> student_t3_cdf x = p"
  proof (rule IVT')
    show "student_t3_cdf (- (2 * sqrt 3)) \<le> p"
      using student_t3_cdf_lower assms by simp
    show "p \<le> student_t3_cdf (2 * sqrt 3)"
      using student_t3_cdf_upper assms by simp
    show "- (2 * sqrt 3) \<le> 2 * sqrt 3" by simp
    show "continuous_on {- (2 * sqrt 3)..2 * sqrt 3} student_t3_cdf"
      by (rule student_t3_cdf_cont)
  qed
  then obtain x where "student_t3_cdf x = p" by blast
  then have "p \<in> range student_t3_cdf" by blast
  then show ?thesis
    unfolding student_t3_quantile_def
    by (rule f_the_inv_into_f [OF student_t3_cdf_inj])
qed

lemma student_t3_quantile_mono:
  assumes "1 / 10 \<le> p" "p \<le> q" "q \<le> 9 / 10"
  shows "student_t3_quantile p \<le> student_t3_quantile q"
proof (rule ccontr)
  assume "\<not> student_t3_quantile p \<le> student_t3_quantile q"
  then have "student_t3_cdf (student_t3_quantile q) < student_t3_cdf (student_t3_quantile p)"
    by (intro student_t3_cdf_strict_mono) simp
  then have "q < p"
    using assms by (simp add: student_t3_cdf_quantile)
  then show False using assms by simp
qed

lemma student_t3_quantile_half: "student_t3_quantile (1 / 2) = 0"
proof -
  have "student_t3_cdf 0 = 1 / 2" by (simp add: student_t3_cdf_def t3_shape_def)
  then show ?thesis
    unfolding student_t3_quantile_def
    by (metis the_inv_f_f student_t3_cdf_inj)
qed


lemma sas_multiplier_pos: "0 < tw \<Longrightarrow> 0 < sas_multiplier tw"
proof -
  assume "0 < tw"
  moreover have "0 < arsinh (2::real)"
    using arsinh_real_strict_mono [of 0 2] by simp
  ultimately have "0 < arsinh 2 * tw" by simp
  then show ?thesis by (simp add: sas_multiplier_def)
qed

lemma forward_sinh_arcsinh_mono:
  assumes "0 < tw" "a \<le> b"
  shows "forward (SinhArcsinh sk tw) a \<le> forward (SinhArcsinh sk tw) b"
proof -
  have "arsinh a \<le> arsinh b"
    using assms(2) by (simp add: linorder_not_less [symmetric])
  then have "(arsinh a + sk) * tw \<le> (arsinh b + sk) * tw"
    using assms(1) by (simp add: mult_right_mono)
  then have "sinh ((arsinh a + sk) * tw) \<le> sinh ((arsinh b + sk) * tw)"
    by simp
  then show ?thesis
    using sas_multiplier_pos [OF assms(1)] by (simp add: mult_right_mono)
qed

lemma quantile_skew_t:
  assumes "0 < sigma"
  shows "quantile (skew_t mu sigma skew tail) p
           = forward (SinhArcsinh skew tail) (student_t3_quantile p) * sigma + mu"
  using assms by (simp add: skew_t_def Let_def)

lemma quantile_skew_t_mono:
  assumes "0 < sigma" "0 < tail" "1 / 10 \<le> p" "p \<le> q" "q \<le> 9 / 10"
  shows "quantile (skew_t mu sigma skew tail) p \<le> quantile (skew_t mu sigma skew tail) q"
proof -
  have "student_t3_quantile p \<le> student_t3_quantile q"
    using assms(3-5) by (rule student_t3_quantile_mono)
  then have "forward (SinhArcsinh skew tail) (student_t3_quantile p)
               \<le> forward (SinhArcsinh skew tail) (student_t3_quantile q)"
    by (rule forward_sinh_arcsinh_mono [OF assms(2)])
  then show ?thesis
    using assms(1) by (simp only: quantile_skew_t [OF assms(1)] add_le_cancel_right mult_le_cancel_right) simp
qed

text \<open>
  What the body of \<open>skew_t\<close> describes, once its two names are resolved: the
  transformed distribution whose base is the Student-t distribution with 3 degrees
  of freedom, location 0 and scale 1, and whose bijector applies the sinh-arcsinh
  transformation first, then the scaling, then the shift.
\<close>

lemma skew_t_body:
  "skew_t mu sigma skew tail
     = TransformedDistribution (StudentT 3 0 1) (Chain [Shift mu, Scale sigma, SinhArcsinh skew tail])
   \<and> forward (Chain [Shift mu, Scale sigma, SinhArcsinh skew tail]) x
     = forward (Shift mu) (forward (Scale sigma) (forward (SinhArcsinh skew tail) x))"
  by (simp add: skew_t_def)

text \<open>
  In exact arithmetic, the five rescaled quantiles of the distribution that the body
  of \<open>skew_t\<close> describes are nondecreasing in the percentile, for a positive scale,
  tail-weight and \<open>y_std\<close>.
\<close>

lemma quantile_fan_exact_sorted:
  assumes "0 < sigma" and "0 < tail" and "0 < y_std"
  shows "sorted (quantile_fan (skew_t mu sigma skew tail) y_std y_mean)"
proof -
  have step: "quantile (skew_t mu sigma skew tail) p * y_std
                \<le> quantile (skew_t mu sigma skew tail) q * y_std"
    if "1 / 10 \<le> p" "p \<le> q" "q \<le> 9 / 10" for p q
    using quantile_skew_t_mono [OF assms(1,2) that] assms(3)
    by (simp add: mult_right_mono)
  show ?thesis
    unfolding quantile_fan_def percentiles_def
    by (simp add: step)
qed

section \<open>Properties of the preprocessing functions\<close>

lemma window_take:
  assumes "w \<le> Suc t" "t < n"
  shows "window w (take n xs) t = window w xs t"
proof -
  have le: "w \<le> n - (Suc t - w)"
    using assms by arith
  have "take w (drop (Suc t - w) (take n xs)) = take w (take (n - (Suc t - w)) (drop (Suc t - w) xs))"
    by (simp add: drop_take)
  also have "\<dots> = take w (drop (Suc t - w) xs)"
    using le by (simp add: min_absorb1)
  finally show ?thesis by (simp add: window_def)
qed

lemma take_upt0: "take n [0..<m] = [0..<min n m]"
proof (cases "n \<le> m")
  case True
  then show ?thesis using take_upt [of 0 n m] by (simp add: min_absorb1)
next
  case False
  then show ?thesis by (simp add: min_absorb2)
qed

lemma rolling_take: "take n (rolling w agg xs) = rolling w agg (take n xs)"
proof -
  have "map (\<lambda>t. if Suc t < w then None
              else (case those (window w xs t) of None \<Rightarrow> None | Some vs \<Rightarrow> agg vs)) [0..<min n (length xs)]
      = map (\<lambda>t. if Suc t < w then None
              else (case those (window w (take n xs) t) of None \<Rightarrow> None | Some vs \<Rightarrow> agg vs)) [0..<min n (length xs)]"
    by (rule map_cong [OF refl]) (auto simp: window_take)
  then show ?thesis
    by (simp add: rolling_def take_map take_upt0 min.commute)
qed

lemma take_butlast_Suc: "take m (butlast xs) = butlast (take (Suc m) xs)"
proof (cases "m < length xs")
  case True
  then show ?thesis by (simp add: take_butlast butlast_take)
next
  case False
  then show ?thesis by simp
qed

lemma shift1_take: "take n (shift1 xs) = shift1 (take n xs)"
proof (cases xs)
  case Nil
  then show ?thesis by (simp add: shift1_def)
next
  case (Cons x ys)
  show ?thesis
  proof (cases n)
    case 0
    then show ?thesis by (simp add: shift1_def)
  next
    case (Suc m)
    have "shift1 (take (Suc m) (x # ys)) = None # butlast (take (Suc m) (x # ys))"
      by (simp add: shift1_def)
    moreover have "take (Suc m) (shift1 (x # ys)) = None # take m (butlast (x # ys))"
      by (simp add: shift1_def)
    ultimately show ?thesis
      using Cons Suc by (simp only: take_butlast_Suc)
  qed
qed

lemma diff1_take: "take n (diff1 xs) = diff1 (take n xs)"
  by (simp add: diff1_def take_map take_zip shift1_take)

lemma ewm_from_take: "take n (ewm_from a y xs) = ewm_from a y (take n xs)"
  by (induction xs arbitrary: n y) (simp_all add: take_Cons split: nat.split)

lemma ewm_mean_take: "take n (ewm_mean a xs) = ewm_mean a (take n xs)"
  by (cases xs; cases n) (simp_all add: ewm_from_take)

lemma length_ewm_from [simp]: "length (ewm_from a y xs) = length xs"
  by (induction xs arbitrary: y) simp_all

lemma length_ewm_mean [simp]: "length (ewm_mean a xs) = length xs"
  by (cases xs) simp_all

lemma min_periods_take: "take n (min_periods m ys) = min_periods m (take n ys)"
  by (simp add: min_periods_def take_map take_zip take_upt0 min.commute)

lemma rsi_take: "take n (rsi close w) = rsi (take n close) w"
  by (simp add: rsi_def Let_def take_map take_zip min_periods_take ewm_mean_take diff1_take)

lemma true_range_take:
  "take n (true_range high low close) = true_range (take n high) (take n low) (take n close)"
  by (simp add: true_range_def take_map take_zip shift1_take)

lemma atr_from_take: "take n (atr_from w a ts) = atr_from w a (take n ts)"
  by (induction ts arbitrary: n a) (simp_all add: take_Cons split: nat.split)

lemma z_score_take: "take n (z_score price w) = z_score (take n price) w"
  by (simp add: z_score_def Let_def take_map take_zip rolling_take)

lemma bollinger_pband_take: "take n (bollinger_pband close w dev) = bollinger_pband (take n close) w dev"
  by (simp add: bollinger_pband_def rolling_take)

lemma sma_indicator_take: "take n (sma_indicator close w) = sma_indicator (take n close) w"
  by (simp add: sma_indicator_def rolling_take)

lemma length_true_range [simp]:
  "length (true_range c c c) = length c"
  by (cases c) (simp_all add: true_range_def shift1_def)

lemma average_true_range_take:
  assumes "0 < w" "w \<le> n" "w \<le> length c"
  shows "\<exists>r r'. average_true_range c c c w = Inr r
           \<and> average_true_range (take n c) (take n c) (take n c) w = Inr r'
           \<and> take n r = r'"
proof -
  let ?tr = "true_range c c c"
  have tr: "true_range (take n c) (take n c) (take n c) = take n ?tr"
    by (simp add: true_range_take)
  have a: "take w (take n ?tr) = take w ?tr"
    using assms by (simp add: min_def)
  have d: "drop w (take n ?tr) = take (n - w) (drop w ?tr)"
    by (simp add: drop_take)
  have "take n (replicate (w - 1) (Some 0) @ nanmean (take w ?tr) # atr_from w (nanmean (take w ?tr)) (drop w ?tr))
      = replicate (w - 1) (Some 0) @ nanmean (take w ?tr) # atr_from w (nanmean (take w ?tr)) (take (n - w) (drop w ?tr))"
    using assms by (simp add: take_Cons' atr_from_take min_def)
  then show ?thesis
    using assms by (simp add: average_true_range_def Let_def tr a d)
qed

lemma nth_by_take:
  assumes "\<And>n xs. take n (f xs) = f (take n xs)" "take (Suc t) p = take (Suc t) q"
  shows "f p ! t = f q ! t"
proof -
  have "f p ! t = take (Suc t) (f p) ! t" by simp
  also have "\<dots> = take (Suc t) (f q) ! t" by (simp add: assms)
  also have "\<dots> = f q ! t" by simp
  finally show ?thesis .
qed

lemma map_of_set_column: "map_of (set_column c v cols) = (map_of cols)(c \<mapsto> v)"
  by (induction cols) (auto simp: fun_eq_iff)

lemma names_set_column:
  "map fst (set_column c v cols) = (if c \<in> set (map fst cols) then map fst cols else map fst cols @ [c])"
proof (induction cols)
  case Nil
  show ?case by simp
next
  case (Cons a cols)
  obtain c' v' where a: "a = (c', v')" by (cases a)
  show ?case
  proof (cases "c' = c")
    case True
    then show ?thesis by (simp add: a)
  next
    case False
    then show ?thesis using Cons by (simp add: a)
  qed
qed

lemma getitem_setitem:
  "getitem (setitem df c v) c' = (if c' = c then Inr v else getitem df c')"
  by (simp add: getitem_def setitem_def map_of_set_column)

lemma columns_setitem: "columns (setitem df c v) = set_column c v (columns df)"
  by (simp add: setitem_def)

lemma bind_Inr [simp]: "bind (Inr v) f = f v"
  by (simp add: bind_def)

lemma bind_Inl [simp]: "bind (Inl e) f = Inl e"
  by (simp add: bind_def)

lemma add_technical_features_eq:
  assumes "getitem df ''rolled_close'' = Inr p" "average_true_range p p p 14 = Inr atr"
  shows "add_technical_features df ''rolled_close'' = Inr (with_features df p atr)"
  using assms by (simp add: add_technical_features_def with_features_def Let_def getitem_setitem)

lemma getitem_with_features:
  "getitem (with_features df p atr) ''sma_20'' = Inr (sma_indicator p 20)"
  "getitem (with_features df p atr) ''sma_50'' = Inr (sma_indicator p 50)"
  "getitem (with_features df p atr) ''rsi_14'' = Inr (rsi p 14)"
  "getitem (with_features df p atr) ''atr_14'' = Inr atr"
  "getitem (with_features df p atr) ''bb_pct'' = Inr (bollinger_pband p 20 2)"
  "getitem (with_features df p atr) ''z_score'' = Inr (z_score p 20)"
  by (simp_all add: with_features_def getitem_setitem)

lemma getitem_dropna:
  "getitem df c = Inr v \<Longrightarrow> getitem (dropna df) c = Inr (select (complete_rows df) v)"
  by (simp add: getitem_def dropna_def map_of_map split: option.splits)


lemma column_names_setitem_set:
  "set (column_names (setitem df c v)) = insert c (set (column_names df))"
  unfolding column_names_def columns_setitem names_set_column by auto

lemma column_names_setitem_new:
  "c \<notin> set (column_names df) \<Longrightarrow> column_names (setitem df c v) = column_names df @ [c]"
  unfolding column_names_def columns_setitem names_set_column by simp

lemma names_with_features_set:
  "set (column_names (with_features df p atr)) = set (column_names df) \<union> set feature_names"
  unfolding with_features_def feature_names_def
  by (simp only: column_names_setitem_set) auto

lemma names_with_features:
  assumes "set feature_names \<inter> set (column_names df) = {}"
  shows "column_names (with_features df p atr) = column_names df @ feature_names"
proof -
  have n: "''sma_20'' \<notin> set (column_names df)" "''sma_50'' \<notin> set (column_names df)"
    "''rsi_14'' \<notin> set (column_names df)" "''atr_14'' \<notin> set (column_names df)"
    "''bb_pct'' \<notin> set (column_names df)" "''z_score'' \<notin> set (column_names df)"
    using assms by (auto simp: feature_names_def)
  show ?thesis
    unfolding with_features_def feature_names_def
    by (simp add: column_names_setitem_new n)
qed

lemma column_names_dropna: "column_names (dropna df) = column_names df"
  by (simp add: column_names_def dropna_def case_prod_unfold comp_def)

lemma atr_causal:
  assumes "14 \<le> length p1" "14 \<le> length p2" "take (Suc t) p1 = take (Suc t) p2"
  shows "\<exists>r1 r2. average_true_range p1 p1 p1 14 = Inr r1
           \<and> average_true_range p2 p2 p2 14 = Inr r2 \<and> r1 ! t = r2 ! t"
proof (cases "14 \<le> Suc t")
  case True
  obtain r1 r1' where r1: "average_true_range p1 p1 p1 14 = Inr r1"
      "average_true_range (take (Suc t) p1) (take (Suc t) p1) (take (Suc t) p1) 14 = Inr r1'"
      "take (Suc t) r1 = r1'"
    using average_true_range_take [of 14 "Suc t" p1] True assms(1) by auto
  obtain r2 r2' where r2: "average_true_range p2 p2 p2 14 = Inr r2"
      "average_true_range (take (Suc t) p2) (take (Suc t) p2) (take (Suc t) p2) 14 = Inr r2'"
      "take (Suc t) r2 = r2'"
    using average_true_range_take [of 14 "Suc t" p2] True assms(2) by auto
  have "take (Suc t) r1 = take (Suc t) r2"
    using r1 r2 assms(3) by simp
  then have "take (Suc t) r1 ! t = take (Suc t) r2 ! t"
    by simp
  then have "r1 ! t = r2 ! t"
    by simp
  then show ?thesis using r1(1) r2(1) by blast
next
  case False
  then have t: "t < 13" by simp
  have "\<And>p. 14 \<le> length p \<Longrightarrow> \<exists>r. average_true_range p p p 14 = Inr r \<and> r ! t = Some 0"
    using t by (simp add: average_true_range_def Let_def nth_append)
  then show ?thesis using assms(1,2) by metis
qed

section \<open>The rows that \<open>compute_technical_features\<close> returns\<close>

subsection \<open>The first rows of a frame\<close>

lemma nrows_first_rows: "nrows (first_rows n df) = min n (nrows df)"
  by (simp add: nrows_def first_rows_def min.commute)

lemma map_of_map_take:
  "map_of (map (\<lambda>(c, v). (c, f v)) cols) c = map_option f (map_of cols c)"
  by (induction cols) auto

lemma getitem_first_rows:
  "getitem (first_rows n df) c = (case getitem df c of Inl err \<Rightarrow> Inl err | Inr v \<Rightarrow> Inr (take n v))"
  by (simp add: getitem_def first_rows_def map_of_map_take split: option.splits)

lemma set_column_map_take:
  "map (\<lambda>(c, v). (c, take n v)) (set_column c v cols)
     = set_column c (take n v) (map (\<lambda>(c, v). (c, take n v)) cols)"
  by (induction cols) auto

lemma first_rows_setitem:
  "first_rows n (setitem df c v) = setitem (first_rows n df) c (take n v)"
  by (simp add: first_rows_def setitem_def set_column_map_take)

lemma first_rows_with_features:
  "first_rows n (with_features df p atr) = with_features (first_rows n df) (take n p) (take n atr)"
  by (simp add: with_features_def first_rows_setitem sma_indicator_take rsi_take
      bollinger_pband_take z_score_take)

lemma complete_rows_first_rows:
  "complete_rows (first_rows n df) = take n (complete_rows df)"
proof -
  have "list_all (\<lambda>(c, v). v ! i \<noteq> None) (map (\<lambda>(c, v). (c, take n v)) (columns df))
        = list_all (\<lambda>(c, v). v ! i \<noteq> None) (columns df)" if "i < n" for i
    using that by (induction "columns df" arbitrary: df) (auto simp: list_all_iff)
  then have "map (\<lambda>i. list_all (\<lambda>(c, v). v ! i \<noteq> None) (map (\<lambda>(c, v). (c, take n v)) (columns df)))
               [0..<min n (nrows df)]
           = map (\<lambda>i. list_all (\<lambda>(c, v). v ! i \<noteq> None) (columns df)) [0..<min n (nrows df)]"
    by (intro map_cong [OF refl]) simp
  then show ?thesis
    by (simp add: complete_rows_def nrows_first_rows take_map take_upt0)
       (simp add: first_rows_def)
qed

lemma filter_take_prefix:
  "filter P (take n xs) = take (length (filter P (take n xs))) (filter P xs)"
proof (induction xs arbitrary: n)
  case Nil
  then show ?case by simp
next
  case (Cons a xs)
  show ?case
  proof (cases n)
    case 0
    then show ?thesis by simp
  next
    case (Suc m)
    then show ?thesis
      using Cons.IH [of m] by simp
  qed
qed

lemma length_filter_fst_zip:
  assumes "length keep \<le> length v"
  shows "length (filter fst (take n (zip keep v))) = length (filter id (take n keep))"
proof -
  have "map fst (take n (zip keep v)) = take n keep"
    using assms by (simp add: take_map [symmetric] map_fst_zip_take min_absorb1)
  then have "length (filter id (take n keep)) = length (filter id (map fst (take n (zip keep v))))"
    by simp
  also have "\<dots> = length (filter fst (take n (zip keep v)))"
    by (simp add: filter_map comp_def)
  finally show ?thesis by simp
qed

lemma select_take:
  assumes "length keep \<le> length v"
  shows "select (take n keep) (take n v) = take (length (filter id (take n keep))) (select keep v)"
proof -
  have "select (take n keep) (take n v) = map snd (filter fst (take n (zip keep v)))"
    by (simp add: select_def take_zip)
  also have "\<dots> = map snd (take (length (filter fst (take n (zip keep v)))) (filter fst (zip keep v)))"
    using filter_take_prefix [of fst n "zip keep v"] by simp
  also have "\<dots> = take (length (filter id (take n keep))) (select keep v)"
    by (simp add: select_def take_map length_filter_fst_zip [OF assms])
  finally show ?thesis .
qed

lemma length_complete_rows [simp]: "length (complete_rows df) = nrows df"
  by (simp add: complete_rows_def)

lemma dropna_first_rows:
  assumes "well_formed df"
  shows "dropna (first_rows n df) = first_rows (kept_rows n df) (dropna df)"
proof -
  let ?keep = "complete_rows df" and ?m = "kept_rows n df"
  have l: "select (take n ?keep) (take n (index_labels df)) = take ?m (select ?keep (index_labels df))"
    unfolding kept_rows_def by (rule select_take) (simp add: nrows_def)
  have c: "select (take n ?keep) (take n v) = take ?m (select ?keep v)"
    if "(c, v) \<in> set (columns df)" for c v
    unfolding kept_rows_def using that assms
    by (intro select_take) (auto simp: well_formed_def list_all_iff)
  have "map (\<lambda>(c, v). (c, select (take n ?keep) v)) (map (\<lambda>(c, v). (c, take n v)) (columns df))
        = map (\<lambda>(c, v). (c, take ?m v)) (map (\<lambda>(c, v). (c, select ?keep v)) (columns df))"
    using c by (auto simp: comp_def)
  then show ?thesis
    using l by (simp add: dropna_def complete_rows_first_rows) (simp add: first_rows_def)
qed

subsection \<open>Well-formed frames\<close>

lemma nrows_setitem [simp]: "nrows (setitem df c v) = nrows df"
  by (simp add: nrows_def setitem_def)

lemma set_set_column: "set (set_column c v cols) \<subseteq> insert (c, v) (set cols)"
  by (induction cols) (auto split: if_splits)

lemma well_formed_setitem:
  assumes "well_formed df" "length v = nrows df"
  shows "well_formed (setitem df c v)"
  using assms set_set_column [of c v "columns df"]
  by (auto simp: well_formed_def list_all_iff columns_setitem)

lemma getitem_well_formed:
  assumes "well_formed df" "getitem df c = Inr v"
  shows "length v = nrows df"
proof -
  have "(c, v) \<in> set (columns df)"
    using assms(2) by (auto simp: getitem_def split: option.splits dest: map_of_SomeD)
  then show ?thesis
    using assms(1) by (auto simp: well_formed_def list_all_iff)
qed

lemma length_rolling [simp]: "length (rolling w agg xs) = length xs"
  by (simp add: rolling_def)

lemma length_shift1 [simp]: "length (shift1 xs) = length xs"
  by (cases xs) (simp_all add: shift1_def)

lemma length_min_periods [simp]: "length (min_periods m ys) = length ys"
  by (simp add: min_periods_def)

lemma length_rsi [simp]: "length (rsi p w) = length p"
  by (simp add: rsi_def Let_def diff1_def)

lemma length_z_score [simp]: "length (z_score p w) = length p"
  by (simp add: z_score_def Let_def)

lemma length_atr_from [simp]: "length (atr_from w a ts) = length ts"
  by (induction ts arbitrary: a) simp_all

lemma length_average_true_range:
  assumes "average_true_range p p p w = Inr r" "0 < w"
  shows "length r = length p"
  using assms by (auto simp: average_true_range_def Let_def split: if_splits)

lemma well_formed_with_features:
  assumes "well_formed df" "length p = nrows df" "length atr = nrows df"
  shows "well_formed (with_features df p atr)"
  unfolding with_features_def
  by (intro well_formed_setitem assms)
     (simp_all add: assms sma_indicator_def bollinger_pband_def)

lemma atr_prefix:
  assumes "14 \<le> length p1" "14 \<le> length p2" "take (Suc t) p1 = take (Suc t) p2"
    and "average_true_range p1 p1 p1 14 = Inr r1" "average_true_range p2 p2 p2 14 = Inr r2"
  shows "take (Suc t) r1 = take (Suc t) r2"
proof (cases "14 \<le> Suc t")
  case True
  show ?thesis
    using average_true_range_take [of 14 "Suc t" p1] average_true_range_take [of 14 "Suc t" p2]
      True assms by auto
next
  case False
  then have t: "Suc t \<le> 13" by simp
  have "take (Suc t) r = replicate (Suc t) (Some 0)"
    if "average_true_range p p p 14 = Inr r" "14 \<le> length p" for p r
    using that t by (auto simp: average_true_range_def Let_def min_def)
  then show ?thesis
    using assms by metis
qed

subsection \<open>No feature looks ahead\<close>

lemma average_true_range_returns:
  assumes "14 \<le> length p"
  shows "\<exists>r. average_true_range p p p 14 = Inr r"
  using assms by (simp add: average_true_range_def Let_def)

lemma kept_rows_first_rows:
  "kept_rows n df = length (filter id (complete_rows (first_rows n df)))"
  by (simp add: kept_rows_def complete_rows_first_rows)

lemma feature_columns_agree:
  assumes "first_rows m r1 = first_rows m r2" "getitem r1 c = Inr v1" "getitem r2 c = Inr v2"
  shows "take m v1 = take m v2"
proof -
  have "getitem (first_rows m r1) c = Inr (take m v1)" "getitem (first_rows m r2) c = Inr (take m v2)"
    using assms(2,3) by (simp_all add: getitem_first_rows)
  then show ?thesis
    using assms(1) by simp
qed

text \<open>
  The series of thirteen days that is the start of the series of fourteen days: on
  the shorter one \<open>compute_technical_features\<close> raises \<open>IndexError\<close> (in the average
  true range, which writes entry 13 of an array of 13 entries), on the longer one it
  returns.  So two series that agree on the days up to day 12 need not have the same
  features on day 12: one of them has none.
\<close>

theorem compute_technical_features_short_series:
  "take (Suc 12) (take 13 demo_prices) = take (Suc 12) demo_prices
   \<and> compute_technical_features (demo_frame (take 13 demo_prices)) ''rolled_close'' = Inl IndexError
   \<and> \<not> isl (compute_technical_features (demo_frame demo_prices) ''rolled_close'')"
proof -
  have a: "take (Suc 12) (take 13 demo_prices) = take (Suc 12) demo_prices"
    by (simp add: demo_prices_def)
  have l: "length (take 13 demo_prices) = 13"
    by (simp add: demo_prices_def)
  have b: "compute_technical_features (demo_frame (take 13 demo_prices)) ''rolled_close'' = Inl IndexError"
    by (simp add: compute_technical_features_def add_technical_features_def demo_frame_def
        getitem_def setitem_def average_true_range_def Let_def l del: take_eq_Nil)
  have g: "getitem (demo_frame demo_prices) ''rolled_close'' = Inr demo_prices"
    by (simp add: getitem_def demo_frame_def)
  obtain r where r: "average_true_range demo_prices demo_prices demo_prices 14 = Inr r"
    using average_true_range_returns [of demo_prices] by (auto simp: demo_prices_def)
  have c: "\<not> isl (compute_technical_features (demo_frame demo_prices) ''rolled_close'')"
    by (simp add: compute_technical_features_def add_technical_features_eq [OF g r])
  show ?thesis
    using a b c by blast
qed

text \<open>
  Claim C7.  On a frame of at least fourteen rows, \<open>compute_technical_features\<close>
  returns, and what it returns has the six feature columns \<open>sma_20\<close>, \<open>sma_50\<close>,
  \<open>rsi_14\<close>, \<open>atr_14\<close>, \<open>bb_pct\<close>, \<open>z_score\<close> (after the columns of the frame, when it
  has none of these names).  No feature depends on later days: for two well-formed
  frames that agree on the days up to \<open>t\<close>, the frames before the rows with a \<open>NaN\<close>
  are dropped agree on the days up to \<open>t\<close>, the same number \<open>m\<close> of these days is
  kept in both, and the two returned frames agree on their first \<open>m\<close> rows, which are
  the rows of the days up to \<open>t\<close>: the index, the price and every feature.
\<close>

theorem compute_technical_features_causal:
  assumes "getitem df1 ''rolled_close'' = Inr p1" and "getitem df2 ''rolled_close'' = Inr p2"
    and "well_formed df1" and "well_formed df2"
    and "14 \<le> nrows df1" and "14 \<le> nrows df2"
    and "first_rows (Suc t) df1 = first_rows (Suc t) df2"
  shows "\<exists>a1 a2.
      add_technical_features df1 ''rolled_close'' = Inr a1
    \<and> add_technical_features df2 ''rolled_close'' = Inr a2
    \<and> compute_technical_features df1 ''rolled_close'' = Inr (dropna a1)
    \<and> compute_technical_features df2 ''rolled_close'' = Inr (dropna a2)
    \<and> set (column_names (dropna a1)) = set (column_names df1) \<union> set feature_names
    \<and> (set feature_names \<inter> set (column_names df1) = {}
         \<longrightarrow> column_names (dropna a1) = column_names df1 @ feature_names)
    \<and> first_rows (Suc t) a1 = first_rows (Suc t) a2
    \<and> kept_rows (Suc t) a1 = kept_rows (Suc t) a2
    \<and> first_rows (kept_rows (Suc t) a1) (dropna a1) = dropna (first_rows (Suc t) a1)
    \<and> first_rows (kept_rows (Suc t) a1) (dropna a1) = first_rows (kept_rows (Suc t) a1) (dropna a2)
    \<and> (\<forall>c\<in>set feature_names. \<exists>v1 v2.
           getitem (dropna a1) c = Inr v1 \<and> getitem (dropna a2) c = Inr v2
         \<and> take (kept_rows (Suc t) a1) v1 = take (kept_rows (Suc t) a1) v2)"
proof -
  have l1: "length p1 = nrows df1" and l2: "length p2 = nrows df2"
    using assms(1-4) by (simp_all add: getitem_well_formed)
  have "getitem (first_rows (Suc t) df1) ''rolled_close'' = Inr (take (Suc t) p1)"
    "getitem (first_rows (Suc t) df2) ''rolled_close'' = Inr (take (Suc t) p2)"
    using assms(1,2) by (simp_all add: getitem_first_rows)
  then have tk: "take (Suc t) p1 = take (Suc t) p2"
    using assms(7) by simp
  obtain r1 where r1: "average_true_range p1 p1 p1 14 = Inr r1"
    using average_true_range_returns [of p1] assms(5) l1 by auto
  obtain r2 where r2: "average_true_range p2 p2 p2 14 = Inr r2"
    using average_true_range_returns [of p2] assms(6) l2 by auto
  have tr: "take (Suc t) r1 = take (Suc t) r2"
    using atr_prefix [OF _ _ tk r1 r2] assms(5,6) l1 l2 by simp
  let ?a1 = "with_features df1 p1 r1" and ?a2 = "with_features df2 p2 r2"
  let ?m = "kept_rows (Suc t) ?a1"
  have a1: "add_technical_features df1 ''rolled_close'' = Inr ?a1"
    using assms(1) r1 by (rule add_technical_features_eq)
  have a2: "add_technical_features df2 ''rolled_close'' = Inr ?a2"
    using assms(2) r2 by (rule add_technical_features_eq)
  have c1: "compute_technical_features df1 ''rolled_close'' = Inr (dropna ?a1)"
    by (simp add: compute_technical_features_def a1)
  have c2: "compute_technical_features df2 ''rolled_close'' = Inr (dropna ?a2)"
    by (simp add: compute_technical_features_def a2)
  have n1: "set (column_names (dropna ?a1)) = set (column_names df1) \<union> set feature_names"
    by (simp only: column_names_dropna names_with_features_set)
  have n2: "set feature_names \<inter> set (column_names df1) = {}
         \<longrightarrow> column_names (dropna ?a1) = column_names df1 @ feature_names"
    using names_with_features [of df1 p1 r1] by (simp only: column_names_dropna) blast
  have fr: "first_rows (Suc t) ?a1 = first_rows (Suc t) ?a2"
    by (simp only: first_rows_with_features assms(7) tk tr)
  have k: "?m = kept_rows (Suc t) ?a2"
    by (simp only: kept_rows_first_rows fr)
  have w1: "well_formed ?a1"
    using assms(3) l1 length_average_true_range [OF r1] by (intro well_formed_with_features) simp_all
  have w2: "well_formed ?a2"
    using assms(4) l2 length_average_true_range [OF r2] by (intro well_formed_with_features) simp_all
  have d1: "first_rows ?m (dropna ?a1) = dropna (first_rows (Suc t) ?a1)"
    using dropna_first_rows [OF w1, of "Suc t"] by simp
  have d2: "first_rows ?m (dropna ?a2) = dropna (first_rows (Suc t) ?a2)"
    using dropna_first_rows [OF w2, of "Suc t"] k by simp
  have e: "first_rows ?m (dropna ?a1) = first_rows ?m (dropna ?a2)"
    by (simp only: d1 d2 fr)
  have f: "\<exists>v1 v2. getitem (dropna ?a1) c = Inr v1 \<and> getitem (dropna ?a2) c = Inr v2
         \<and> take ?m v1 = take ?m v2"
    if c: "c \<in> set feature_names" for c
  proof -
    have "c = ''sma_20'' \<or> c = ''sma_50'' \<or> c = ''rsi_14'' \<or> c = ''atr_14''
        \<or> c = ''bb_pct'' \<or> c = ''z_score''"
      using c by (simp add: feature_names_def)
    then obtain v1 v2 where v: "getitem ?a1 c = Inr v1" "getitem ?a2 c = Inr v2"
      by (elim disjE) (simp_all only: getitem_with_features)
    have g: "getitem (dropna ?a1) c = Inr (select (complete_rows ?a1) v1)"
      "getitem (dropna ?a2) c = Inr (select (complete_rows ?a2) v2)"
      using v by (simp_all only: getitem_dropna)
    show ?thesis
      using g feature_columns_agree [OF e g] by blast
  qed
  show ?thesis
    using a1 a2 c1 c2 n1 n2 fr k d1 e f by blast
qed

subsection \<open>Which cells of the features are numbers\<close>

lemma those_map_Some: "those (map Some vs) = Some vs"
  by (induction vs) simp_all

lemma window_map: "window w (map f xs) t = map f (window w xs t)"
  by (simp add: window_def take_map drop_map)

lemma rolling_Some_nth:
  assumes "i < length v"
  shows "rolling w agg (map Some v) ! i = (if Suc i < w then None else agg (window w v i))"
  using assms by (simp add: rolling_def window_map those_map_Some)

lemma min_periods_nth:
  "i < length ys \<Longrightarrow> min_periods m ys ! i = (if Suc i < m then None else Some (ys ! i))"
  by (simp add: min_periods_def)

lemma rsi_defined:
  assumes "i < length p" "13 \<le> i"
  shows "rsi p 14 ! i \<noteq> None"
  using assms by (simp add: rsi_def Let_def diff1_def min_periods_nth rsi_cell_def)

lemma present_Cons_Some: "present (Some x # cs) = x # present cs"
  by (simp add: present_def)

lemma true_range_defined:
  assumes "i < length v"
  shows "true_range (map Some v) (map Some v) (map Some v) ! i \<noteq> None"
  using assms
  by (simp add: true_range_def sub_cell_def nanmax_def present_Cons_Some)

lemma true_range_all_defined:
  "list_all (\<lambda>c. c \<noteq> None) (true_range (map Some v) (map Some v) (map Some v))"
  using true_range_defined [of _ v] length_true_range [of "map Some v"]
  by (simp add: list_all_length)

lemma nanmean_defined:
  assumes "cs \<noteq> []" "list_all (\<lambda>c. c \<noteq> None) cs"
  shows "nanmean cs \<noteq> None"
proof -
  obtain x cs' where "cs = Some x # cs'"
    using assms by (cases cs) auto
  then show ?thesis
    by (simp add: nanmean_def present_Cons_Some)
qed

lemma atr_from_defined:
  assumes "a \<noteq> None" "list_all (\<lambda>c. c \<noteq> None) ts"
  shows "list_all (\<lambda>c. c \<noteq> None) (atr_from w a ts)"
  using assms
proof (induction ts arbitrary: a)
  case Nil
  then show ?case by simp
next
  case (Cons t ts)
  then have n: "atr_next w a t \<noteq> None"
    by (auto simp: atr_next_def)
  show ?case
    using Cons.IH [OF n] Cons.prems n by simp
qed

lemma atr_defined:
  assumes "14 \<le> length v"
    and "average_true_range (map Some v) (map Some v) (map Some v) 14 = Inr r"
  shows "list_all (\<lambda>c. c \<noteq> None) r"
proof -
  let ?tr = "true_range (map Some v) (map Some v) (map Some v)"
  have a: "list_all (\<lambda>c. c \<noteq> None) ?tr"
    by (rule true_range_all_defined)
  have t: "list_all (\<lambda>c. c \<noteq> None) (take 14 ?tr)" and d: "list_all (\<lambda>c. c \<noteq> None) (drop 14 ?tr)"
    using a by (auto simp: list_all_iff dest: in_set_takeD in_set_dropD)
  have "take 14 ?tr \<noteq> []"
    using assms(1) length_true_range [of "map Some v"] by (auto simp del: length_true_range)
  then have m: "nanmean (take 14 ?tr) \<noteq> None"
    using t by (rule nanmean_defined)
  have "r = replicate 13 (Some 0) @ nanmean (take 14 ?tr) # atr_from 14 (nanmean (take 14 ?tr)) (drop 14 ?tr)"
    using assms by (simp add: average_true_range_def Let_def)
  then show ?thesis
    using m atr_from_defined [OF m d, of 14] by (simp add: list_all_iff)
qed

lemma sum_squares_pos:
  fixes vs :: "real list"
  assumes "x \<in> set vs" "x \<noteq> m"
  shows "0 < sum_list (map (\<lambda>v. (v - m)\<^sup>2) vs)"
  using assms
proof (induction vs)
  case Nil
  then show ?case by simp
next
  case (Cons a vs)
  have n: "0 \<le> sum_list (map (\<lambda>v. (v - m)\<^sup>2) vs)"
    by (rule sum_list_nonneg) auto
  show ?case
  proof (cases "x = a")
    case True
    then have "0 < (a - m)\<^sup>2"
      using Cons.prems by simp
    then have "0 < (a - m)\<^sup>2 + sum_list (map (\<lambda>v. (v - m)\<^sup>2) vs)"
      using n by (rule add_pos_nonneg)
    then show ?thesis
      by simp
  next
    case False
    then have "0 < sum_list (map (\<lambda>v. (v - m)\<^sup>2) vs)"
      using Cons by simp
    moreover have "0 \<le> (a - m)\<^sup>2"
      by simp
    ultimately have "0 < (a - m)\<^sup>2 + sum_list (map (\<lambda>v. (v - m)\<^sup>2) vs)"
      by (rule add_nonneg_pos [rotated])
    then show ?thesis
      by simp
  qed
qed

lemma std_ne_zero:
  assumes "x \<in> set vs" "y \<in> set vs" "x \<noteq> y" "k < length vs"
  shows "std_ddof k vs \<noteq> 0"
proof -
  obtain z where z: "z \<in> set vs" "z \<noteq> mean vs"
    using assms(1-3) by (cases "x = mean vs") auto
  have "0 < sum_list (map (\<lambda>v. (v - mean vs)\<^sup>2) vs)"
    using z by (rule sum_squares_pos)
  then show ?thesis
    using assms(4) by (simp add: std_ddof_def)
qed

lemma pband_defined: "std_ddof 0 vs \<noteq> 0 \<Longrightarrow> pband 2 vs \<noteq> None"
  by (simp add: pband_def Let_def div_cell_def)

lemma z_score_Some_nth:
  assumes "i < length v"
  shows "z_score (map Some v) w ! i
         = (if Suc i < w then None
            else div_cell (Some (v ! i - mean (window w v i))) (Some (std_ddof 1 (window w v i))))"
  using assms by (simp add: z_score_def Let_def rolling_Some_nth sub_cell_def div_cell_def)

subsection \<open>The rising prices\<close>

lemma rising_prices_eq: "rising_prices n = map Some (map real [0..<n])"
  by (simp add: rising_prices_def)

lemma length_rising_prices [simp]: "length (rising_prices n) = n"
  by (simp add: rising_prices_def)

lemma window_rising:
  assumes "i < n" "w \<le> Suc i"
  shows "window w (map real [0..<n]) i = map real [Suc i - w..<Suc i]"
proof -
  have "take w [Suc i - w..<n] = [Suc i - w..<Suc i]"
    using assms take_upt [of "Suc i - w" w n] by simp
  then show ?thesis
    by (simp add: window_def take_map drop_map)
qed

lemma std_window_rising:
  assumes "i < n" "w \<le> Suc i" "2 \<le> w" "k < w"
  shows "std_ddof k (window w (map real [0..<n]) i) \<noteq> 0"
proof -
  have "Suc i - w < Suc i"
    using assms by arith
  then have "Suc i - w \<in> set [Suc i - w..<Suc i]" "i \<in> set [Suc i - w..<Suc i]"
    by (auto simp: less_Suc_eq)
  then have "real (Suc i - w) \<in> set (map real [Suc i - w..<Suc i])"
    "real i \<in> set (map real [Suc i - w..<Suc i])"
    unfolding set_map by (simp_all only: imageI)
  moreover have "Suc i - w \<noteq> i"
    using assms by arith
  then have "real (Suc i - w) \<noteq> real i"
    by (simp only: of_nat_eq_iff not_False_eq_True)
  moreover have "k < length (map real [Suc i - w..<Suc i])"
    using assms by simp
  ultimately have "std_ddof k (map real [Suc i - w..<Suc i]) \<noteq> 0"
    by (rule std_ne_zero)
  then show ?thesis
    by (simp only: window_rising [OF assms(1,2)] not_False_eq_True)
qed

lemma columns_with_features_single:
  "columns (with_features \<lparr>index_name = nm, index_labels = L, columns = [(''rolled_close'', p)]\<rparr> p atr)
     = [(''rolled_close'', p), (''sma_20'', sma_indicator p 20), (''sma_50'', sma_indicator p 50),
        (''rsi_14'', rsi p 14), (''atr_14'', atr), (''bb_pct'', bollinger_pband p 20 2),
        (''z_score'', z_score p 20)]"
  by (simp add: with_features_def setitem_def)

lemma nrows_with_features [simp]: "nrows (with_features df p atr) = nrows df"
  by (simp add: with_features_def)

lemma complete_rows_rising:
  assumes "14 \<le> n" "length L = n"
    and "average_true_range (rising_prices n) (rising_prices n) (rising_prices n) 14 = Inr r"
  shows "complete_rows (with_features \<lparr>index_name = nm, index_labels = L,
                                         columns = [(''rolled_close'', rising_prices n)]\<rparr>
                          (rising_prices n) r)
         = map (\<lambda>i. 49 \<le> i) [0..<n]"
proof -
  let ?v = "map real [0..<n]"
  let ?p = "rising_prices n"
  have p: "?p = map Some ?v"
    by (rule rising_prices_eq)
  have lr: "length r = n"
    using length_average_true_range [OF assms(3)] by simp
  have r: "r ! i \<noteq> None" if "i < n" for i
    using atr_defined [of ?v r] assms(1,3) that lr by (simp add: p list_all_length del: map_map)
  have s20: "sma_indicator ?p 20 ! i \<noteq> None" if "i < n" "49 \<le> i" for i
    using that by (simp add: p sma_indicator_def rolling_Some_nth del: map_map)
  have s50: "(sma_indicator ?p 50 ! i \<noteq> None) = (49 \<le> i)" if "i < n" for i
    using that by (auto simp: p sma_indicator_def rolling_Some_nth simp del: map_map)
  have rs: "rsi ?p 14 ! i \<noteq> None" if "i < n" "49 \<le> i" for i
    using that by (intro rsi_defined) simp_all
  have bb: "bollinger_pband ?p 20 2 ! i \<noteq> None" if "i < n" "49 \<le> i" for i
    using that std_window_rising [of i n 20 0]
    by (simp add: p bollinger_pband_def rolling_Some_nth pband_defined del: map_map)
  have z: "z_score ?p 20 ! i \<noteq> None" if "i < n" "49 \<le> i" for i
    using that std_window_rising [of i n 20 1]
    by (simp add: p z_score_Some_nth div_cell_def del: map_map)
  have pr: "?p ! i \<noteq> None" if "i < n" for i
    using that by (simp add: rising_prices_def)
  have eq: "list_all (\<lambda>(c, v). v ! i \<noteq> None)
          [(''rolled_close'', ?p), (''sma_20'', sma_indicator ?p 20), (''sma_50'', sma_indicator ?p 50),
           (''rsi_14'', rsi ?p 14), (''atr_14'', r), (''bb_pct'', bollinger_pband ?p 20 2),
           (''z_score'', z_score ?p 20)] = (49 \<le> i)" if "i \<in> set [0..<n]" for i
    using that r s20 s50 rs bb z pr by auto
  have nr: "nrows (with_features \<lparr>index_name = nm, index_labels = L,
                                    columns = [(''rolled_close'', ?p)]\<rparr> ?p r) = n"
    using assms(2) by (simp add: nrows_def [of "\<lparr>index_name = nm, index_labels = L,
                                    columns = [(''rolled_close'', ?p)]\<rparr>"])
  show ?thesis
    unfolding complete_rows_def columns_with_features_single nr
    by (rule map_cong [OF refl]) (rule eq)
qed

subsection \<open>The features of the rising prices\<close>

lemma length_filter_ge: "length (filter id (map (\<lambda>i. k \<le> i) [0..<n])) = n - k"
  by (induction n) (simp_all add: Suc_diff_le)

lemma select_ge:
  "length xs = n \<Longrightarrow> select (map (\<lambda>i. k \<le> i) [0..<n]) xs = drop k xs"
proof (induction xs arbitrary: n rule: rev_induct)
  case Nil
  then show ?case by (simp add: select_def)
next
  case (snoc x xs)
  then obtain m where n: "n = Suc m" and m: "length xs = m"
    by (cases n) auto
  have "select (map (\<lambda>i. k \<le> i) [0..<Suc m]) (xs @ [x])
        = select (map (\<lambda>i. k \<le> i) [0..<m]) xs @ (if k \<le> m then [x] else [])"
    using m by (simp add: select_def)
  also have "\<dots> = drop k xs @ (if k \<le> m then [x] else [])"
    using snoc.IH [OF m] by simp
  also have "\<dots> = drop k (xs @ [x])"
    using m by auto
  finally show ?case
    using n by simp
qed

lemma demo_frame_simps:
  "getitem (demo_frame p) ''rolled_close'' = Inr p"
  "well_formed (demo_frame p)"
  "nrows (demo_frame p) = length p"
  "column_names (demo_frame p) = [''rolled_close'']"
  by (simp_all add: getitem_def demo_frame_def well_formed_def nrows_def column_names_def)

lemma index_labels_with_features [simp]:
  "index_labels (with_features df p atr) = index_labels df"
  by (simp add: with_features_def setitem_def)

lemma rising_features:
  assumes "14 \<le> n"
  shows "\<exists>r. add_technical_features (demo_frame (rising_prices n)) ''rolled_close''
               = Inr (with_features (demo_frame (rising_prices n)) (rising_prices n) r)
           \<and> complete_rows (with_features (demo_frame (rising_prices n)) (rising_prices n) r)
               = map (\<lambda>i. 49 \<le> i) [0..<n]
           \<and> length r = n"
proof -
  obtain r where r: "average_true_range (rising_prices n) (rising_prices n) (rising_prices n) 14 = Inr r"
    using average_true_range_returns [of "rising_prices n"] assms by auto
  have a: "add_technical_features (demo_frame (rising_prices n)) ''rolled_close''
           = Inr (with_features (demo_frame (rising_prices n)) (rising_prices n) r)"
    using demo_frame_simps(1) r by (rule add_technical_features_eq)
  have c: "complete_rows (with_features (demo_frame (rising_prices n)) (rising_prices n) r)
           = map (\<lambda>i. 49 \<le> i) [0..<n]"
    unfolding demo_frame_def by (rule complete_rows_rising [OF assms _ r]) simp
  show ?thesis
    using a c length_average_true_range [OF r] by auto
qed

theorem compute_technical_features_causal_witness:
  "getitem (demo_frame (rising_prices 51)) ''rolled_close'' = Inr (rising_prices 51)
   \<and> getitem (demo_frame (rising_prices 50 @ [Some 0])) ''rolled_close'' = Inr (rising_prices 50 @ [Some 0])
   \<and> well_formed (demo_frame (rising_prices 51))
   \<and> well_formed (demo_frame (rising_prices 50 @ [Some 0]))
   \<and> 14 \<le> nrows (demo_frame (rising_prices 51))
   \<and> 14 \<le> nrows (demo_frame (rising_prices 50 @ [Some 0]))
   \<and> first_rows (Suc 49) (demo_frame (rising_prices 51))
       = first_rows (Suc 49) (demo_frame (rising_prices 50 @ [Some 0]))
   \<and> (\<exists>a1 a2.
        compute_technical_features (demo_frame (rising_prices 51)) ''rolled_close'' = Inr (dropna a1)
      \<and> compute_technical_features (demo_frame (rising_prices 50 @ [Some 0])) ''rolled_close''
          = Inr (dropna a2)
      \<and> column_names (dropna a1) = ''rolled_close'' # feature_names
      \<and> kept_rows (Suc 49) a1 = 1
      \<and> index_labels (first_rows 1 (dropna a1)) = [Some 49]
      \<and> first_rows 1 (dropna a1) = first_rows 1 (dropna a2))"
proof -
  let ?d1 = "demo_frame (rising_prices 51)" and ?d2 = "demo_frame (rising_prices 50 @ [Some 0])"
  have h1: "getitem ?d1 ''rolled_close'' = Inr (rising_prices 51)"
    and h2: "getitem ?d2 ''rolled_close'' = Inr (rising_prices 50 @ [Some 0])"
    and h3: "well_formed ?d1" and h4: "well_formed ?d2"
    by (simp_all only: demo_frame_simps)
  have h5: "14 \<le> nrows ?d1" and h6: "14 \<le> nrows ?d2"
    by (simp_all add: demo_frame_simps)
  have h7: "first_rows (Suc 49) ?d1 = first_rows (Suc 49) ?d2"
    by (simp add: first_rows_def demo_frame_def rising_prices_def take_map take_upt0)
  obtain r where r: "add_technical_features ?d1 ''rolled_close''
               = Inr (with_features ?d1 (rising_prices 51) r)"
      "complete_rows (with_features ?d1 (rising_prices 51) r) = map (\<lambda>i. 49 \<le> i) [0..<51]"
    using rising_features [of 51] by auto
  obtain a1 a2 where a:
      "add_technical_features ?d1 ''rolled_close'' = Inr a1"
      "compute_technical_features ?d1 ''rolled_close'' = Inr (dropna a1)"
      "compute_technical_features ?d2 ''rolled_close'' = Inr (dropna a2)"
      "set feature_names \<inter> set (column_names ?d1) = {}
         \<longrightarrow> column_names (dropna a1) = column_names ?d1 @ feature_names"
      "first_rows (kept_rows (Suc 49) a1) (dropna a1) = first_rows (kept_rows (Suc 49) a1) (dropna a2)"
    using compute_technical_features_causal [OF h1 h2 h3 h4 h5 h6 h7] by blast
  have a1: "a1 = with_features ?d1 (rising_prices 51) r"
    using a(1) r(1) by simp
  have "take (Suc 49) (map (\<lambda>i. 49 \<le> i) [0..<51]) = map (\<lambda>i. (49::nat) \<le> i) [0..<50]"
    by (simp add: take_map take_upt0)
  then have k: "kept_rows (Suc 49) a1 = 1"
    unfolding kept_rows_def a1 r(2) using length_filter_ge [of 49 50] by simp
  have n: "column_names (dropna a1) = ''rolled_close'' # feature_names"
    using a(4) by (simp add: demo_frame_simps feature_names_def)
  have "index_labels (dropna a1) = select (map (\<lambda>i. 49 \<le> i) [0..<51]) (index_labels ?d1)"
    unfolding a1 by (simp add: dropna_def r(2) index_labels_with_features)
  also have "\<dots> = drop 49 (index_labels ?d1)"
    by (rule select_ge) (simp add: demo_frame_def)
  finally have "index_labels (dropna a1) = drop 49 (index_labels ?d1)" .
  then have l: "index_labels (first_rows 1 (dropna a1)) = [Some 49]"
    by (simp add: first_rows_def demo_frame_def drop_map take_map)
  have e: "first_rows 1 (dropna a1) = first_rows 1 (dropna a2)"
    using a(5) k by simp
  show ?thesis
    using h1 h2 h3 h4 h5 h6 h7 a(2,3) n k l e by blast
qed

section \<open>Properties of the training step\<close>

lemma entries_map_weights: "entries (map_weights f w) = map f (entries w)"
  by (simp add: entries_def map_weights_def entries_dense_def entries_head_def map_dense_def
      map_head_def map_concat)

lemma sum_list_squares_scaled:
  "(\<Sum>x\<leftarrow>xs. (x * c)\<^sup>2) = c\<^sup>2 * (\<Sum>x\<leftarrow>xs. x\<^sup>2)" for c :: real
proof (induction xs)
  case Nil
  show ?case by simp
next
  case (Cons a xs)
  have "(a * c)\<^sup>2 = c\<^sup>2 * a\<^sup>2"
    by (simp add: power_mult_distrib)
  then show ?case
    using Cons by (simp add: distrib_left)
qed

lemma sum_list_squares_nonneg: "0 \<le> (\<Sum>x\<leftarrow>xs. x\<^sup>2)" for xs :: "real list"
  by (induction xs) simp_all

lemma global_norm_scaled: "global_norm (map_weights (\<lambda>x. x * c) g) = \<bar>c\<bar> * global_norm g"
proof -
  have "global_norm (map_weights (\<lambda>x. x * c) g) = sqrt (\<Sum>x\<leftarrow>entries g. (x * c)\<^sup>2)"
    by (simp add: global_norm_def entries_map_weights comp_def)
  also have "\<dots> = sqrt (c\<^sup>2 * (\<Sum>x\<leftarrow>entries g. x\<^sup>2))"
    by (simp only: sum_list_squares_scaled)
  also have "\<dots> = \<bar>c\<bar> * sqrt (\<Sum>x\<leftarrow>entries g. x\<^sup>2)"
    by (simp add: real_sqrt_mult)
  finally show ?thesis by (simp add: global_norm_def)
qed

lemma global_norm_nonneg: "0 \<le> global_norm g"
  by (simp add: global_norm_def sum_list_squares_nonneg)

lemma global_norm_clipped:
  assumes "0 < c"
  shows "global_norm (fst (clip_by_global_norm g c)) \<le> c"
proof -
  let ?n = "global_norm g"
  let ?s = "c * min (1 / ?n) (1 / c)"
  have n: "0 \<le> ?n" by (rule global_norm_nonneg)
  have s: "0 \<le> ?s" using assms n by simp
  have "global_norm (fst (clip_by_global_norm g c)) = ?s * ?n"
    using s by (simp add: clip_by_global_norm_def global_norm_scaled)
  also have "\<dots> \<le> c"
  proof (cases "?n = 0")
    case True
    then show ?thesis using assms by simp
  next
    case False
    then have pos: "0 < ?n" using n by simp
    have "min (1 / ?n) (1 / c) \<le> 1 / ?n" by simp
    then have "min (1 / ?n) (1 / c) * ?n \<le> 1 / ?n * ?n"
      using pos by (intro mult_right_mono) simp_all
    then have "min (1 / ?n) (1 / c) * ?n \<le> 1" using pos by simp
    then have "c * (min (1 / ?n) (1 / c) * ?n) \<le> c * 1"
      using assms by (intro mult_left_mono) simp_all
    then show ?thesis by (simp add: mult.assoc)
  qed
  finally show ?thesis .
qed

text \<open>
  What the body of \<open>step\<close> describes, once \<open>skew_t\<close> returns: the loss is minus the
  mean of the log-densities at the batch targets, and the gradient that is applied
  has been clipped to a global norm of at most 2.
\<close>

lemma step_body:
  "fst (step e n w opt batch)
     = - mean (map (\<lambda>(bx, by). case call n w bx of (mu, s, k, tau) \<Rightarrow> log_prob (skew_t mu s k tau) by) batch)
   \<and> snd (step e n w opt batch)
     = apply_gradients opt (fst (clip_by_global_norm (gradient e (\<lambda>w'. nll n w' batch) w) 2)) w
   \<and> global_norm (fst (clip_by_global_norm (gradient e (\<lambda>w'. nll n w' batch) w) 2)) \<le> 2"
  using global_norm_clipped [of 2 "gradient e (\<lambda>w'. nll n w' batch) w"]
  by (simp add: step_def Let_def nll_def)

section \<open>Properties of the imports cell\<close>

text \<open>
  Claim C10.  The assignment \<open>tfd, tfb = tfp.distributions, tfb.bijectors\<close> of the
  imports cell reads \<open>tfb\<close> before the name is bound: run in a kernel that does not
  bind \<open>tfb\<close>, the cell always ends in an exception and leaves \<open>tfb\<close> unbound (and
  \<open>tfd\<close> as it was), so that a later call of \<open>skew_t\<close> cannot resolve its names; when
  the six modules can be imported, the exception is \<open>NameError\<close> for \<open>tfb\<close>.
\<close>

theorem imports_cell_raises:
  assumes "g_modules k ''tfb'' = None"
  shows "snd (imports_cell e k) \<noteq> None
       \<and> g_modules (fst (imports_cell e k)) ''tfb'' = None
       \<and> g_modules (fst (imports_cell e k)) ''tfd'' = g_modules k ''tfd''
       \<and> resolve_skew_t_names (fst (imports_cell e k)) \<noteq> None
       \<and> (list_all (importable e) imported_modules
            \<longrightarrow> snd (imports_cell e k) = Some (NameError ''tfb''))"
proof -
  have a: "snd (imports_cell e k) \<noteq> None"
    and b: "g_modules (fst (imports_cell e k)) ''tfb'' = None"
    and c: "g_modules (fst (imports_cell e k)) ''tfd'' = g_modules k ''tfd''"
    and d: "list_all (importable e) imported_modules
            \<longrightarrow> snd (imports_cell e k) = Some (NameError ''tfb'')"
    using assms
    by (simp_all add: imports_cell_def imports_cell_source_def imported_modules_def
        lookup_module_def bind_def module_has_def)
  have "resolve_skew_t_names (fst (imports_cell e k)) \<noteq> None"
    using b by (simp add: resolve_skew_t_names_def lookup_module_def split: option.splits)
  then show ?thesis using a b c d by blast
qed

theorem imports_cell_raises_witness:
  "g_modules fresh_kernel ''tfb'' = None
   \<and> list_all (importable demo_env) imported_modules
   \<and> snd (imports_cell demo_env fresh_kernel) = Some (NameError ''tfb'')
   \<and> g_modules (fst (imports_cell demo_env fresh_kernel)) ''tfb'' = None
   \<and> resolve_skew_t_names (fst (imports_cell demo_env fresh_kernel)) \<noteq> None"
proof -
  have h: "g_modules fresh_kernel ''tfb'' = None"
    by (simp add: fresh_kernel_def)
  have i: "list_all (importable demo_env) imported_modules"
    by (simp add: demo_env_def imported_modules_def)
  show ?thesis
    using imports_cell_raises [OF h, of demo_env] h i by blast
qed

section \<open>Properties of the data cell and of the guards\<close>

lemma lookup_module_bound: "g_modules k x = Some m \<Longrightarrow> lookup_module k x = Inr m"
  by (simp add: lookup_module_def)

lemma lookup_module_emit [simp]: "lookup_module (emit out k) x = lookup_module k x"
  by (simp add: lookup_module_def emit_def)

lemma column_names_set_index:
  "set_index df c = Inr df' \<Longrightarrow> set (column_names df') = set (column_names df) - {c}"
  by (auto simp: set_index_def bind_def column_names_def split: sum.splits)

lemma column_names_take_rows [simp]: "column_names (take_rows order df) = column_names df"
  by (simp add: column_names_def take_rows_def case_prod_unfold comp_def)

lemma column_names_sort_index [simp]: "column_names (sort_index e df) = column_names df"
  by (simp add: sort_index_def Let_def)

lemma index_by_date_names:
  assumes "index_by_date e f = Inr df"
  shows "set (column_names df) = set (column_names f) - {''date''}"
proof -
  obtain d where d: "getitem f ''date'' = Inr d"
    using assms by (cases "getitem f ''date''") (simp_all add: index_by_date_def)
  obtain df' where s: "set_index (setitem f ''date'' d) ''date'' = Inr df'" and r: "df = sort_index e df'"
    using assms d by (cases "set_index (setitem f ''date'' d) ''date''") (auto simp: index_by_date_def)
  have "set (column_names df') = set (column_names (setitem f ''date'' d)) - {''date''}"
    using s by (rule column_names_set_index)
  then show ?thesis
    by (simp add: r column_names_setitem_set)
qed

lemma index_by_date_total:
  assumes "getitem f ''date'' = Inr d"
  shows "\<exists>df. index_by_date e f = Inr df"
  using assms by (simp add: index_by_date_def set_index_def getitem_setitem)

lemma map_nth_upt: "n = length xs \<Longrightarrow> map (\<lambda>i. xs ! i) [0..<n] = xs"
  by (simp add: map_nth)

lemma sorting_order_strict:
  assumes "sorted_wrt (<) keys" "sorting_order keys p"
  shows "p = [0..<length keys]"
proof -
  let ?n = "length keys"
  have sk: "sorted keys" and dk: "distinct keys"
    using assms(1) by (simp_all add: strict_sorted_iff)
  have dp: "distinct p" and sp: "set p = {0..<?n}" and so: "sorted (map (\<lambda>j. keys ! j) p)"
    using assms(2) by (simp_all add: sorting_order_def)
  have inj: "inj_on (\<lambda>j. keys ! j) {0..<?n}"
    using dk by (simp add: inj_on_def nth_eq_iff_index_eq)
  have d: "distinct (map (\<lambda>j. keys ! j) p)"
    using dp inj sp by (simp add: distinct_map)
  have "set (map (\<lambda>j. keys ! j) p) = (\<lambda>j. keys ! j) ` {0..<?n}"
    using sp by simp
  also have "\<dots> = set (map (\<lambda>j. keys ! j) [0..<?n])"
    by simp
  also have "\<dots> = set keys"
    by (simp only: map_nth)
  finally have s: "set (map (\<lambda>j. keys ! j) p) = set keys" .
  have "map (\<lambda>j. keys ! j) p = keys"
    using so d sk dk s by (rule sorted_distinct_set_unique)
  then have "map (\<lambda>j. keys ! j) p = map (\<lambda>j. keys ! j) [0..<?n]"
    by (simp only: map_nth)
  moreover have "inj_on (\<lambda>j. keys ! j) (set p \<union> set [0..<?n])"
    using inj sp by simp
  ultimately show ?thesis
    by (simp only: inj_on_map_eq_map)
qed

lemma map_nth_upt_id: "set p \<subseteq> {0..<n} \<Longrightarrow> map (\<lambda>j. [0..<n] ! j) p = p"
  by (induction p) simp_all

lemma index_by_date_sorted:
  assumes "length dates = length P" "sorted_wrt (<) dates" "c \<noteq> ''date''"
  shows "index_by_date e \<lparr>index_name = nm, index_labels = L,
                           columns = [(''date'', map Some dates), (c, P)]\<rparr>
         = Inr \<lparr>index_name = Some ''date'', index_labels = map Some dates,
                columns = [(c, P)]\<rparr>"
proof -
  let ?df = "\<lparr>index_name = Some ''date'', index_labels = map Some dates,
               columns = [(c, P)]\<rparr>"
  let ?n = "length dates"
  have n: "nrows ?df = ?n" by (simp add: nrows_def)
  have all: "filter (\<lambda>i. index_labels ?df ! i \<noteq> None) [0..<?n] = [0..<?n]"
    by (rule filter_True) simp
  have none: "filter (\<lambda>i. index_labels ?df ! i = None) [0..<?n] = []"
    by (rule filter_False) simp
  have keys: "map (label_key ?df) [0..<?n] = dates"
    by (rule nth_equalityI) (simp_all add: label_key_def)
  have srt: "sorted dates"
    using assms(2) by (simp add: strict_sorted_iff)
  have stable: "sort_key (label_key ?df) [0..<?n] = [0..<?n]"
    by (rule sort_key_id_if_sorted) (simp add: keys srt)
  have orc: "map (\<lambda>j. [0..<?n] ! j) (argsort e dates) = [0..<?n]"
    if "sorting_order dates (argsort e dates)"
    using sorting_order_strict [OF assms(2) that] by (simp add: map_nth_upt_id)
  have "(if sorting_order dates (argsort e dates)
         then map (\<lambda>j. [0..<?n] ! j) (argsort e dates)
         else sort_key (label_key ?df) [0..<?n]) = [0..<?n]"
    using stable orc by simp
  then have "sort_index e ?df = take_rows [0..<?n] ?df"
    by (simp only: sort_index_def Let_def n all none keys append_Nil2)
  also have "\<dots> = ?df"
    using assms(1) by (simp add: take_rows_def map_nth_upt)
  finally have s: "sort_index e ?df = ?df" .
  show ?thesis
    using assms(3) by (simp add: index_by_date_def getitem_def setitem_def set_index_def s)
qed

lemma length_cumsum_from [simp]: "length (cumsum_from acc xs) = length xs"
  by (induction xs arbitrary: acc) simp_all

lemma index_by_date_dummy: "index_by_date e (dummy_frame e) = Inr (dummy_raw_df e)"
proof -
  have srt: "sorted_wrt (<) (map (\<lambda>i. 18995 + real i) [0..<1000])"
    by (rule sorted_wrt_iff_nth_less [THEN iffD2]) simp
  have len: "length (map (\<lambda>i. 18995 + real i) [0..<1000]) = length (map Some (dummy_prices e))"
    by (simp add: dummy_prices_def)
  show ?thesis
    using index_by_date_sorted [OF len srt, of "''rolled_close''"]
    by (simp add: dummy_frame_def dummy_raw_df_def dummy_prices_def Let_def comp_def)
qed

lemma nrows_dummy: "nrows (dummy_raw_df e) = 1000"
  by (simp add: nrows_def dummy_raw_df_def)

lemma load_data_missing_file:
  assumes "csv_file e = None" "g_modules k ''pd'' = Some pd" "g_modules k ''np'' = Some np"
  shows "load_data e k
         = (k\<lparr>g_raw_df := Some (dummy_raw_df e),
               outputs := outputs k @ [Print msg_not_found, Print msg_dummy, PrintFrame (head5 (dummy_raw_df e))]\<rparr>,
            None)"
  using assms
  by (simp add: load_data_def lookup_module_def emit_def index_by_date_dummy Let_def
      msg_not_found_def msg_dummy_def)

lemma load_data_file:
  assumes "csv_file e = Some f" "index_by_date e f = Inr raw" "g_modules k ''pd'' = Some pd"
  shows "load_data e k
         = (k\<lparr>g_raw_df := Some raw,
               outputs := outputs k @ [Print msg_loaded, PrintFrame (head5 raw)]\<rparr>,
            None)"
  using assms by (simp add: load_data_def lookup_module_def emit_def)

lemma feature_engineering_no_column:
  assumes "g_raw_df k = Some raw" "''rolled_close'' \<notin> set (column_names raw)"
  shows "feature_engineering k
         = (k\<lparr>g_df_4_params := Some empty_frame, outputs := outputs k @ [Print msg_no_column]\<rparr>, None)"
  using assms by (simp add: feature_engineering_def emit_def msg_no_column_def)

lemma target_and_features_empty:
  assumes "g_df_4_params k = Some empty_frame" "g_modules k ''np'' = Some np" "g_modules k ''tf'' = Some tf"
  shows "target_and_features k
         = (k\<lparr>g_y_raw := Some [], g_X_raw := Some [], g_y_z := Some [], g_norm := Some Unadapted,
               outputs := outputs k @ [Print msg_skip_preparation]\<rparr>, None)"
  using assms
  by (simp add: target_and_features_def emit_def lookup_module_def is_empty_def empty_frame_def
      msg_skip_preparation_def Let_def)

lemma training_cell_no_data:
  assumes "g_X_raw k = Some []"
  shows "training_cell e k
         = (k\<lparr>g_loss_log := Some [], outputs := outputs k @ [Print msg_skip_training]\<rparr>, None)"
  using assms by (simp add: training_cell_def emit_def array_size_def msg_skip_training_def)

lemma quantile_fan_cell_no_data:
  assumes "g_X_raw k = Some []"
  shows "quantile_fan_cell e k = (k\<lparr>outputs := outputs k @ [Print msg_skip_fan]\<rparr>, None)"
  using assms
  by (simp add: quantile_fan_cell_def diagnostics_guard_def emit_def array_size_def msg_skip_fan_def)

lemma pit_cell_no_data:
  assumes "g_X_raw k = Some []"
  shows "pit_cell k = (k\<lparr>outputs := outputs k @ [Print msg_skip_pit]\<rparr>, None)"
  using assms
  by (simp add: pit_cell_def diagnostics_guard_def emit_def array_size_def msg_skip_pit_def)

lemma and_then_ok: "a k = (k', None) \<Longrightarrow> and_then a b k = b k'"
  by (simp add: and_then_def)

lemma loss_plot_cell_logged:
  assumes "g_modules k ''plt'' = Some plt" "g_loss_log k = Some logged"
  shows "loss_plot_cell k = (k\<lparr>outputs := outputs k @ [Figure fig_training]\<rparr>, None)"
  using assms by (simp add: loss_plot_cell_def lookup_module_def emit_def)

lemma data_cell_no_column:
  assumes pd: "g_modules k ''pd'' = Some pd" and np: "g_modules k ''np'' = Some np"
    and tf: "g_modules k ''tf'' = Some tf"
    and csv: "csv_file e = Some f" and idx: "index_by_date e f = Inr raw"
    and no: "''rolled_close'' \<notin> set (column_names f)"
  shows "data_cell e k
           = (k\<lparr>g_raw_df := Some raw, g_df_4_params := Some empty_frame, g_y_raw := Some [],
                 g_X_raw := Some [], g_y_z := Some [], g_norm := Some Unadapted,
                 outputs := outputs k @
                   [Print msg_loaded, PrintFrame (head5 raw),
                    Print msg_no_column, Print msg_skip_preparation]\<rparr>, None)"
proof -
  have no': "''rolled_close'' \<notin> set (column_names raw)"
    using index_by_date_names [OF idx] no by simp
  show ?thesis
    by (simp add: data_cell_def and_then_def load_data_file [OF csv idx pd]
        feature_engineering_no_column [where raw = raw]
        target_and_features_empty [where np = np and tf = tf] no' np tf)
qed

lemma downstream_no_column:
  assumes pd: "g_modules k ''pd'' = Some pd" and np: "g_modules k ''np'' = Some np"
    and tf: "g_modules k ''tf'' = Some tf" and plt: "g_modules k ''plt'' = Some plt"
    and csv: "csv_file e = Some f" and idx: "index_by_date e f = Inr raw"
    and no: "''rolled_close'' \<notin> set (column_names f)"
  shows "downstream e k
         = (k\<lparr>g_raw_df := Some raw, g_df_4_params := Some empty_frame, g_y_raw := Some [],
               g_X_raw := Some [], g_y_z := Some [], g_norm := Some Unadapted, g_loss_log := Some [],
               outputs := outputs k @
                 [Print msg_loaded, PrintFrame (head5 raw),
                  Print msg_no_column, Print msg_skip_preparation, Print msg_skip_training,
                  Figure fig_training, Print msg_skip_fan, Print msg_skip_pit]\<rparr>,
            None)"
  by (simp add: downstream_def and_then_def data_cell_no_column [OF pd np tf csv idx no]
      training_cell_no_data loss_plot_cell_logged [where plt = plt and logged = "[]"] plt
      quantile_fan_cell_no_data pit_cell_no_data)

lemma demo_kernel_modules:
  "g_modules demo_kernel ''pd'' = Some ''pandas''"
  "g_modules demo_kernel ''np'' = Some ''numpy''"
  "g_modules demo_kernel ''tf'' = Some ''tensorflow''"
  "g_modules demo_kernel ''plt'' = Some ''matplotlib.pyplot''"
  "g_modules demo_kernel ''ta'' = Some ''ta''"
  "g_modules demo_kernel ''tfd'' = None"
  "g_modules demo_kernel ''tfb'' = None"
  by (simp_all add: demo_kernel_def imports_cell_def imports_cell_source_def demo_env_def
      fresh_kernel_def lookup_module_def bind_def)

lemma index_by_date_demo_csv:
  "index_by_date e demo_csv_no_price
     = Inr \<lparr>index_name = Some ''date'', index_labels = map Some [19000, 19001],
            columns = [(''close'', [Some 10, Some 11])]\<rparr>"
  unfolding demo_csv_no_price_def by (rule index_by_date_sorted) simp_all

text \<open>
  The statement that, without the column \<open>rolled_close\<close>, every stage after the data
  is skipped does not hold of the cell of the training curve, which has no guard: in
  the kernel after the imports cell, with a data file of two days that has the
  columns \<open>date\<close> and \<open>close\<close> only, the cells after the data raise nothing, and the
  cell of the training curve is not skipped: it shows its figure (of the empty loss
  log).
\<close>

theorem training_curve_not_skipped:
  "snd (downstream (demo_env\<lparr>csv_file := Some demo_csv_no_price\<rparr>) demo_kernel) = None
   \<and> Figure fig_training
       \<in> set (outputs (fst (downstream (demo_env\<lparr>csv_file := Some demo_csv_no_price\<rparr>) demo_kernel)))
   \<and> Figure fig_training \<notin> set (outputs demo_kernel)"
proof -
  let ?e = "demo_env\<lparr>csv_file := Some demo_csv_no_price\<rparr>"
  have n: "''rolled_close'' \<notin> set (column_names demo_csv_no_price)"
    by (simp add: column_names_def demo_csv_no_price_def)
  have o: "outputs demo_kernel = []"
    by (simp add: demo_kernel_def imports_cell_def imports_cell_source_def demo_env_def
        fresh_kernel_def lookup_module_def bind_def)
  show ?thesis
    by (simp add: downstream_no_column [OF demo_kernel_modules(1-4) _ index_by_date_demo_csv n] o)
qed

text \<open>
  Claim C5.  In a kernel with pandas, numpy, tensorflow and pyplot imported: when
  the data file is not there, the loading part of the data cell prints the two
  warning lines and substitutes the synthetic 1000-day random-walk series, without
  raising; when the file is read and has no \<open>rolled_close\<close> column, the error line is
  printed, \<open>df_4_params\<close> is the empty frame, and the preparation of target and
  features, the training loop and both diagnostics cells only print that they are
  skipped, while the cell of the training curve, which has no guard, runs and shows
  its figure of the empty loss log: no cell raises, nothing is trained, and what is
  shown is exactly these lines and that one figure, in this order.
\<close>

theorem missing_data_fallbacks:
  assumes "g_modules k ''pd'' = Some pd" and "g_modules k ''np'' = Some np"
    and "g_modules k ''tf'' = Some tf" and "g_modules k ''plt'' = Some plt"
  shows "(csv_file e = None \<longrightarrow>
            load_data e k
              = (k\<lparr>g_raw_df := Some (dummy_raw_df e),
                    outputs := outputs k @ [Print msg_not_found, Print msg_dummy,
                                            PrintFrame (head5 (dummy_raw_df e))]\<rparr>, None)
          \<and> nrows (dummy_raw_df e) = 1000)
       \<and> (\<forall>f raw. csv_file e = Some f \<and> index_by_date e f = Inr raw
              \<and> ''rolled_close'' \<notin> set (column_names f) \<longrightarrow>
            downstream e k
              = (k\<lparr>g_raw_df := Some raw, g_df_4_params := Some empty_frame, g_y_raw := Some [],
                    g_X_raw := Some [], g_y_z := Some [], g_norm := Some Unadapted,
                    g_loss_log := Some [],
                    outputs := outputs k @
                      [Print msg_loaded, PrintFrame (head5 raw),
                       Print msg_no_column, Print msg_skip_preparation, Print msg_skip_training,
                       Figure fig_training, Print msg_skip_fan, Print msg_skip_pit]\<rparr>,
                 None))"
  using load_data_missing_file [OF _ assms(1,2)] nrows_dummy downstream_no_column [OF assms]
  by blast

theorem missing_data_fallbacks_witness:
  "g_modules demo_kernel ''pd'' = Some ''pandas''
   \<and> g_modules demo_kernel ''np'' = Some ''numpy''
   \<and> g_modules demo_kernel ''tf'' = Some ''tensorflow''
   \<and> g_modules demo_kernel ''plt'' = Some ''matplotlib.pyplot''
   \<and> csv_file demo_env = None
   \<and> fst (load_data demo_env demo_kernel)
       = demo_kernel\<lparr>g_raw_df := Some (dummy_raw_df demo_env),
            outputs := outputs demo_kernel @ [Print msg_not_found, Print msg_dummy,
                                              PrintFrame (head5 (dummy_raw_df demo_env))]\<rparr>
   \<and> csv_file (demo_env\<lparr>csv_file := Some demo_csv_no_price\<rparr>) = Some demo_csv_no_price
   \<and> index_by_date (demo_env\<lparr>csv_file := Some demo_csv_no_price\<rparr>) demo_csv_no_price
       = Inr \<lparr>index_name = Some ''date'', index_labels = map Some [19000, 19001],
              columns = [(''close'', [Some 10, Some 11])]\<rparr>
   \<and> ''rolled_close'' \<notin> set (column_names demo_csv_no_price)
   \<and> snd (downstream (demo_env\<lparr>csv_file := Some demo_csv_no_price\<rparr>) demo_kernel) = None
   \<and> g_df_4_params (fst (downstream (demo_env\<lparr>csv_file := Some demo_csv_no_price\<rparr>) demo_kernel))
       = Some empty_frame"
proof -
  let ?e = "demo_env\<lparr>csv_file := Some demo_csv_no_price\<rparr>"
  let ?raw = "\<lparr>index_name = Some ''date'', index_labels = map Some [19000, 19001],
              columns = [(''close'', [Some 10, Some 11])]\<rparr>"
  have c0: "csv_file demo_env = None" by (simp add: demo_env_def)
  have c1: "csv_file ?e = Some demo_csv_no_price" by simp
  have i: "index_by_date ?e demo_csv_no_price = Inr ?raw"
    by (rule index_by_date_demo_csv)
  have n: "''rolled_close'' \<notin> set (column_names demo_csv_no_price)"
    by (simp add: column_names_def demo_csv_no_price_def)
  note t1 = missing_data_fallbacks [OF demo_kernel_modules(1-4), of demo_env]
  note t2 = missing_data_fallbacks [OF demo_kernel_modules(1-4), of ?e]
  have a: "fst (load_data demo_env demo_kernel)
       = demo_kernel\<lparr>g_raw_df := Some (dummy_raw_df demo_env),
            outputs := outputs demo_kernel @ [Print msg_not_found, Print msg_dummy,
                                              PrintFrame (head5 (dummy_raw_df demo_env))]\<rparr>"
    using t1 c0 by simp
  have b: "snd (downstream ?e demo_kernel) = None
         \<and> g_df_4_params (fst (downstream ?e demo_kernel)) = Some empty_frame"
    using t2 c1 i n by simp
  show ?thesis
    using demo_kernel_modules(1-4) c0 a c1 i n b by blast
qed

section \<open>Properties of the model object\<close>

lemma ensure_built_built:
  "m_weights m = Some w \<Longrightarrow> ensure_built e m d = (w, m)"
  by (simp add: ensure_built_def)

lemma keras_call_built:
  "m_weights m = Some w \<Longrightarrow>
     keras_call e m X = (map (call (norm_stats (m_norm m) (input_dim X)) w) X, m)"
  by (simp add: keras_call_def ensure_built_built)

lemma g_model_emit [simp]: "g_model (emit out k) = g_model k"
  by (simp add: emit_def)

lemma quantile_fan_body_model:
  assumes "g_model k = Some m" "m_weights m = Some w"
  shows "g_model (fst (quantile_fan_body e k)) = Some m"
  using assms
  by (simp add: quantile_fan_body_def keras_call_built Let_def
      split: option.splits sum.splits)

lemma quantile_fan_cell_model:
  assumes "g_model k = Some m" "m_weights m = Some w"
  shows "g_model (fst (quantile_fan_cell e k)) = Some m"
  using assms quantile_fan_body_model [OF assms]
  by (simp add: quantile_fan_cell_def split: sum.splits bool.splits)

lemma pit_cell_model: "g_model (fst (pit_cell k)) = g_model k"
  by (simp add: pit_cell_def pit_body_def Let_def split: sum.splits bool.splits option.splits)

lemma loss_plot_cell_model: "g_model (fst (loss_plot_cell k)) = g_model k"
  by (simp add: loss_plot_cell_def split: sum.splits option.splits)

lemma kernel_step_model:
  assumes "m_weights m = Some w"
  shows "fst (fst (kernel_step e k (m, opt) batch))
         = (if resolve_skew_t_names k = None
            then m\<lparr>m_weights := Some (fst (apply_gradients opt
                    (fst (clip_by_global_norm
                       (gradient e (\<lambda>w'. nll (norm_stats (m_norm m) (input_dim (map fst batch))) w' batch) w) 2)) w))\<rparr>
            else m)"
  using assms
  by (simp add: kernel_step_def ensure_built_built step_def Let_def split: option.splits prod.splits)

text \<open>
  Claim C9.  The parameters of a model that has its variables are changed by a
  training step only through \<open>apply_gradients\<close> (the new variables are its result, and
  a step that raises before it leaves them as they are), and no forward pass changes
  them: a call of the model returns the model as it was, and the cell of the
  training curve and both diagnostics cells, with the call \<open>model(X_raw)\<close>, leave the
  model of the kernel unchanged.  (The variables are created when the model is first
  called, which the first training step does.)
\<close>

theorem model_parameters_frame:
  assumes "g_model k = Some m" and "m_weights m = Some w"
  shows "snd (keras_call e m X) = m
       \<and> g_model (fst (quantile_fan_cell e k)) = Some m
       \<and> g_model (fst (pit_cell k)) = Some m
       \<and> g_model (fst (loss_plot_cell k)) = Some m
       \<and> fst (fst (kernel_step e k (m, opt) batch))
         = (if resolve_skew_t_names k = None
            then m\<lparr>m_weights := Some (fst (apply_gradients opt
                    (fst (clip_by_global_norm
                       (gradient e (\<lambda>w'. nll (norm_stats (m_norm m) (input_dim (map fst batch))) w' batch) w) 2)) w))\<rparr>
            else m)"
  using assms quantile_fan_cell_model [OF assms] kernel_step_model [OF assms(2)]
  by (simp add: keras_call_built pit_cell_model loss_plot_cell_model)

theorem model_parameters_frame_witness:
  "g_model demo_trained_kernel = Some demo_model
   \<and> m_weights demo_model = Some (initial_weights demo_env 6 1)
   \<and> snd (keras_call demo_env demo_model [[1, 2, 3, 4, 5, 6]]) = demo_model
   \<and> g_model (fst (quantile_fan_cell demo_env demo_trained_kernel)) = Some demo_model
   \<and> g_model (fst (pit_cell demo_trained_kernel)) = Some demo_model"
proof -
  have h1: "g_model demo_trained_kernel = Some demo_model"
    by (simp add: demo_trained_kernel_def)
  have h2: "m_weights demo_model = Some (initial_weights demo_env 6 1)"
    by (simp add: demo_model_def)
  show ?thesis
    using model_parameters_frame [OF h1 h2, of demo_env "[[1, 2, 3, 4, 5, 6]]"] h1 h2
    by blast
qed

section \<open>Properties of the runs of the notebook\<close>

text \<open>
  No cell binds \<open>tfd\<close> or \<open>tfb\<close>: the imports cell raises before it would, and the
  other cells bind no module name.  So in a kernel that starts fresh, whatever cells
  are run, \<open>skew_t\<close> never resolves its names, \<open>dist\<close> is never bound, and the two
  diagnostics figures are never shown.
\<close>

lemma figures_distinct [simp]:
  "fig_training \<noteq> fig_fan" "fig_training \<noteq> fig_pit" "fig_fan \<noteq> fig_pit"
  by (simp_all add: fig_training_def fig_fan_def fig_pit_def)

lemma diagnostics_unreached_emit:
  assumes "diagnostics_unreached k" "out \<noteq> Figure fig_fan" "out \<noteq> Figure fig_pit"
  shows "diagnostics_unreached (emit out k)"
  using assms by (auto simp: diagnostics_unreached_def emit_def)

lemma diagnostics_unreached_fresh: "diagnostics_unreached fresh_kernel"
  by (simp add: diagnostics_unreached_def fresh_kernel_def)

lemma unreached_resolve:
  "diagnostics_unreached k \<Longrightarrow> resolve_skew_t_names k = Some (NameError ''tfd'')"
  by (simp add: diagnostics_unreached_def resolve_skew_t_names_def lookup_module_def)

lemma imports_cell_unreached:
  assumes "diagnostics_unreached k"
  shows "diagnostics_unreached (fst (imports_cell e k))"
  using assms
  by (simp add: diagnostics_unreached_def imports_cell_def imports_cell_source_def
      lookup_module_def bind_def module_has_def)

lemma load_data_unreached:
  assumes "diagnostics_unreached k"
  shows "diagnostics_unreached (fst (load_data e k))"
  using assms
  by (simp add: diagnostics_unreached_def load_data_def emit_def lookup_module_def Let_def
      split: sum.splits option.splits)

lemma feature_engineering_unreached:
  assumes "diagnostics_unreached k"
  shows "diagnostics_unreached (fst (feature_engineering k))"
  using assms
  by (simp add: diagnostics_unreached_def feature_engineering_def emit_def lookup_module_def
      split: sum.splits option.splits)

lemma target_and_features_unreached:
  assumes "diagnostics_unreached k"
  shows "diagnostics_unreached (fst (target_and_features k))"
  using assms
  by (simp add: diagnostics_unreached_def target_and_features_def emit_def lookup_module_def
      Let_def split: sum.splits option.splits)

lemma and_then_unreached:
  assumes "\<And>k. diagnostics_unreached k \<Longrightarrow> diagnostics_unreached (fst (a k))"
    and "\<And>k. diagnostics_unreached k \<Longrightarrow> diagnostics_unreached (fst (b k))"
    and "diagnostics_unreached k"
  shows "diagnostics_unreached (fst (and_then a b k))"
proof (cases "a k")
  case (Pair k' r)
  then have "diagnostics_unreached k'"
    using assms(1) [OF assms(3)] by simp
  then show ?thesis
    using Pair assms(2) [of k'] by (cases r) (simp_all add: and_then_def)
qed

lemma data_cell_unreached:
  assumes "diagnostics_unreached k"
  shows "diagnostics_unreached (fst (data_cell e k))"
  unfolding data_cell_def
  by (intro and_then_unreached load_data_unreached feature_engineering_unreached
      target_and_features_unreached assms)

lemma run_epochs_unreached:
  assumes "diagnostics_unreached k"
  shows "diagnostics_unreached (fst (run_epochs e ds ep n k st logged))"
  using assms
proof (induction n arbitrary: ep k st logged)
  case 0
  then show ?case by (simp add: diagnostics_unreached_def)
next
  case (Suc n)
  have u: "diagnostics_unreached (k\<lparr>g_model := a, g_opt := b, g_loss_log := c\<rparr>)" for a b c
    using Suc.prems by (simp add: diagnostics_unreached_def)
  have v: "diagnostics_unreached (emit (PrintEpoch i x) k)" for i x
    using Suc.prems by (rule diagnostics_unreached_emit) simp_all
  show ?case
    using u Suc.IH [OF v]
    by (simp split: sum.splits prod.splits)
qed

lemma training_cell_unreached:
  assumes "diagnostics_unreached k"
  shows "diagnostics_unreached (fst (training_cell e k))"
proof -
  have u: "diagnostics_unreached (k\<lparr>g_model := a, g_opt := b, g_loss_log := c\<rparr>)" for a b c
    using assms by (simp add: diagnostics_unreached_def)
  have v: "diagnostics_unreached ((emit (Print msg_skip_training) k)\<lparr>g_loss_log := c\<rparr>)" for c
    using assms by (simp add: diagnostics_unreached_def emit_def)
  show ?thesis
    using assms u v run_epochs_unreached [OF u]
    by (simp add: training_cell_def split: sum.splits option.splits)
qed

lemma loss_plot_cell_unreached:
  assumes "diagnostics_unreached k"
  shows "diagnostics_unreached (fst (loss_plot_cell k))"
  using assms diagnostics_unreached_emit [OF assms, of "Figure fig_training"]
  by (simp add: loss_plot_cell_def split: sum.splits option.splits)

lemma quantile_fan_body_unreached:
  assumes "diagnostics_unreached k"
  shows "diagnostics_unreached (fst (quantile_fan_body e k))"
proof -
  have u: "diagnostics_unreached (k\<lparr>g_model := a\<rparr>)" for a
    using assms by (simp add: diagnostics_unreached_def)
  show ?thesis
    using assms u
    by (simp add: quantile_fan_body_def Let_def unreached_resolve [OF u]
        split: option.splits prod.splits)
qed

lemma quantile_fan_cell_unreached:
  assumes "diagnostics_unreached k"
  shows "diagnostics_unreached (fst (quantile_fan_cell e k))"
  using assms quantile_fan_body_unreached [OF assms]
    diagnostics_unreached_emit [OF assms, of "Print msg_skip_fan"]
  by (simp add: quantile_fan_cell_def split: sum.splits bool.splits)

lemma pit_cell_unreached:
  assumes "diagnostics_unreached k"
  shows "diagnostics_unreached (fst (pit_cell k))"
  using assms diagnostics_unreached_emit [OF assms, of "Print msg_skip_pit"]
  by (simp add: pit_cell_def pit_body_def diagnostics_unreached_def
      split: sum.splits bool.splits)

lemma notebook_cell_unreached:
  assumes "c \<in> set (notebook_cells e)" "diagnostics_unreached k"
  shows "diagnostics_unreached (fst (c k))"
proof -
  have "c = imports_cell e \<or> c = data_cell e \<or> c = training_cell e \<or> c = loss_plot_cell
      \<or> c = quantile_fan_cell e \<or> c = pit_cell"
    using assms(1) by (simp add: notebook_cells_def)
  then show ?thesis
    using imports_cell_unreached data_cell_unreached training_cell_unreached
      loss_plot_cell_unreached quantile_fan_cell_unreached pit_cell_unreached assms(2)
    by (elim disjE) simp_all
qed

lemma run_each_unreached:
  assumes "set cs \<subseteq> set (notebook_cells e)" "diagnostics_unreached k"
  shows "diagnostics_unreached (run_each cs k)"
  using assms
proof (induction cs arbitrary: k)
  case Nil
  then show ?case by simp
next
  case (Cons c cs)
  then show ?case
    using notebook_cell_unreached [of c e k] by simp
qed

lemma run_all_unreached:
  assumes "set cs \<subseteq> set (notebook_cells e)" "diagnostics_unreached k"
  shows "diagnostics_unreached (fst (run_all cs k))"
  using assms
proof (induction cs arbitrary: k)
  case Nil
  then show ?case by simp
next
  case (Cons c cs)
  have "diagnostics_unreached (fst (c k))"
    using Cons.prems notebook_cell_unreached [of c e k] by simp
  then show ?case
    using Cons by (cases "c k") (auto split: option.splits)
qed

section \<open>What the runs of the notebook do with \<open>skew_t\<close>\<close>

lemma run_each_resolve:
  assumes "set cs \<subseteq> set (notebook_cells e)"
  shows "resolve_skew_t_names (run_each cs fresh_kernel) = Some (NameError ''tfd'')"
  using run_each_unreached [OF assms diagnostics_unreached_fresh] by (rule unreached_resolve)

lemma resolve_skew_t_names_eq:
  "resolve_skew_t_names k =
     (case g_modules k ''tfd'' of
        None \<Rightarrow> Some (NameError ''tfd'')
      | Some d \<Rightarrow>
          if d \<noteq> ''tensorflow_probability.distributions'' then Some (AttributeError ''StudentT'')
          else (case g_modules k ''tfb'' of
                  None \<Rightarrow> Some (NameError ''tfb'')
                | Some b \<Rightarrow>
                    if b \<noteq> ''tensorflow_probability.bijectors'' then Some (AttributeError ''Chain'')
                    else None))"
  by (simp add: resolve_skew_t_names_def lookup_module_def split: option.splits)

lemma resolve_skew_t_names_cong:
  "g_modules k' = g_modules k \<Longrightarrow> resolve_skew_t_names k' = resolve_skew_t_names k"
  by (simp add: resolve_skew_t_names_eq split: option.splits)

lemma kernel_skew_t_bound:
  assumes "g_modules k ''tfd'' = Some ''tensorflow_probability.distributions''"
    and "g_modules k ''tfb'' = Some ''tensorflow_probability.bijectors''"
  shows "kernel_skew_t k mu sigma skew tail
         = Inr (TransformedDistribution (StudentT 3 0 1)
                  (Chain [Shift mu, Scale sigma, SinhArcsinh skew tail]))"
  using assms
  by (simp add: kernel_skew_t_def resolve_skew_t_names_eq skew_t_def)

lemma kernel_step_unresolved:
  assumes "resolve_skew_t_names k = Some err"
  shows "snd (kernel_step e k st batch) = Inl err"
    and "snd (fst (kernel_step e k st batch)) = snd st"
    and "m_weights (fst st) = Some w \<Longrightarrow> fst (fst (kernel_step e k st batch)) = fst st"
  using assms
  by (cases st; simp add: kernel_step_def ensure_built_def split: prod.splits option.splits)+

lemma run_batches_unresolved:
  assumes "resolve_skew_t_names k = Some err" "bs \<noteq> []"
  shows "snd (run_batches e k st bs losses) = Inl err"
proof -
  obtain b bs' where bs: "bs = b # bs'"
    using assms(2) by (cases bs) auto
  obtain st' where s: "kernel_step e k st b = (st', Inl err)"
    using kernel_step_unresolved(1) [OF assms(1), of e st b] by (cases "kernel_step e k st b") auto
  show ?thesis
    by (simp add: bs s)
qed

lemma batched_nonempty: "xs \<noteq> [] \<Longrightarrow> batched n xs \<noteq> []"
  by (cases xs) simp_all

lemma training_cell_unresolved:
  assumes r: "resolve_skew_t_names k = Some err"
    and X: "g_X_raw k = Some X" "0 < array_size X" and yz: "g_y_z k = Some yz" "0 < length yz"
    and tf: "g_modules k ''tf'' = Some tf" and np: "g_modules k ''np'' = Some np"
    and n: "g_norm k = Some n"
    and sh: "shuffle e 0 (zip X yz) \<noteq> []"
  shows "snd (training_cell e k) = Some err"
    and "g_loss_log (fst (training_cell e k)) = Some []"
    and "outputs (fst (training_cell e k)) = outputs k"
proof -
  let ?k = "k\<lparr>g_model := Some (APCSkewT n 32), g_opt := Some (Adam (1 / 1000)), g_loss_log := Some []\<rparr>"
  let ?st = "(APCSkewT n 32, Adam (1 / 1000))"
  have b: "batched 63 (shuffle e 0 (zip X yz)) \<noteq> []"
    using sh by (rule batched_nonempty)
  have r': "resolve_skew_t_names ?k = Some err"
    using r resolve_skew_t_names_cong [of ?k k] by simp
  obtain st' where rb: "run_batches e ?k ?st (batched 63 (shuffle e 0 (zip X yz))) [] = (st', Inl err)"
    using run_batches_unresolved [OF r' b, of e ?st "[]"]
    by (cases "run_batches e ?k ?st (batched 63 (shuffle e 0 (zip X yz))) []") auto
  have "run_epochs e (zip X yz) 0 30 ?k ?st []
        = (?k\<lparr>g_model := Some (fst st'), g_opt := Some (snd st'), g_loss_log := Some []\<rparr>, Some err)"
    using np rb by (simp add: numeral_eq_Suc lookup_module_def)
  then show "snd (training_cell e k) = Some err"
    and "g_loss_log (fst (training_cell e k)) = Some []"
    and "outputs (fst (training_cell e k)) = outputs k"
    using X yz tf n by (simp_all add: training_cell_def lookup_module_def)
qed

text \<open>
  Claim C3.  In a kernel that started fresh and ran cells of the notebook, in any
  order and any number of times, a call \<open>skew_t(mu, sigma, skew, tail)\<close> constructs
  nothing: it raises \<open>NameError\<close> for \<open>tfd\<close>, whatever its arguments.  Only in a kernel
  that binds \<open>tfd\<close> and \<open>tfb\<close> to the distributions and the bijectors of the
  probability library, which no cell of the notebook does, the call returns the
  transformed distribution that the claim describes: the Student-t base with 3
  degrees of freedom, location 0 and scale 1, under the chain that applies the
  sinh-arcsinh bijector first, then the scaling, then the shift.
\<close>

theorem skew_t_raises_name_error:
  assumes "set cs \<subseteq> set (notebook_cells e)"
  shows "kernel_skew_t (run_each cs fresh_kernel) mu sigma skew tail = Inl (NameError ''tfd'')
       \<and> (g_modules k ''tfd'' = Some ''tensorflow_probability.distributions''
            \<and> g_modules k ''tfb'' = Some ''tensorflow_probability.bijectors''
          \<longrightarrow> kernel_skew_t k mu sigma skew tail
                = Inr (TransformedDistribution (StudentT 3 0 1)
                         (Chain [Shift mu, Scale sigma, SinhArcsinh skew tail])))"
  using run_each_resolve [OF assms] kernel_skew_t_bound [of k mu sigma skew tail]
  by (simp add: kernel_skew_t_def)

theorem skew_t_raises_name_error_witness:
  "set (notebook_cells demo_env) \<subseteq> set (notebook_cells demo_env)
   \<and> kernel_skew_t (run_each (notebook_cells demo_env) fresh_kernel) 0 1 0 1 = Inl (NameError ''tfd'')
   \<and> g_modules (fresh_kernel\<lparr>g_modules := [''tfd'' \<mapsto> ''tensorflow_probability.distributions'',
                                             ''tfb'' \<mapsto> ''tensorflow_probability.bijectors'']\<rparr>) ''tfd''
       = Some ''tensorflow_probability.distributions''
   \<and> g_modules (fresh_kernel\<lparr>g_modules := [''tfd'' \<mapsto> ''tensorflow_probability.distributions'',
                                             ''tfb'' \<mapsto> ''tensorflow_probability.bijectors'']\<rparr>) ''tfb''
       = Some ''tensorflow_probability.bijectors''
   \<and> kernel_skew_t (fresh_kernel\<lparr>g_modules := [''tfd'' \<mapsto> ''tensorflow_probability.distributions'',
                                                 ''tfb'' \<mapsto> ''tensorflow_probability.bijectors'']\<rparr>) 0 1 0 1
       = Inr (TransformedDistribution (StudentT 3 0 1) (Chain [Shift 0, Scale 1, SinhArcsinh 0 1]))"
  using skew_t_raises_name_error [where cs = "notebook_cells demo_env" and e = demo_env
      and k = "fresh_kernel\<lparr>g_modules := [''tfd'' \<mapsto> ''tensorflow_probability.distributions'',
                                          ''tfb'' \<mapsto> ''tensorflow_probability.bijectors'']\<rparr>"
      and mu = 0 and sigma = 1 and skew = 0 and tail = 1]
  by simp

text \<open>
  Claim C4.  In a kernel that started fresh and ran cells of the notebook, in any
  order and any number of times, \<open>tfd\<close> is unbound, and a call of \<open>step\<close> computes no
  loss and applies no gradient: it raises \<open>NameError\<close> for \<open>tfd\<close> inside \<open>skew_t\<close>,
  the optimizer is as it was, and so is a model that has its variables.  So in every
  kernel without \<open>tfd\<close> the training cell, when there are data and the shuffled
  data set is not empty, ends in this exception at its first batch, with an empty
  loss log and no epoch printed.
\<close>

theorem step_raises_name_error:
  assumes "set cs \<subseteq> set (notebook_cells e)"
  shows "g_modules (run_each cs fresh_kernel) ''tfd'' = None
       \<and> snd (kernel_step e' (run_each cs fresh_kernel) st batch) = Inl (NameError ''tfd'')
       \<and> snd (fst (kernel_step e' (run_each cs fresh_kernel) st batch)) = snd st
       \<and> (\<forall>w. m_weights (fst st) = Some w
              \<longrightarrow> fst (fst (kernel_step e' (run_each cs fresh_kernel) st batch)) = fst st)
       \<and> (\<forall>k X yz tf np n.
            g_modules k ''tfd'' = None
            \<and> g_X_raw k = Some X \<and> 0 < array_size X \<and> g_y_z k = Some yz \<and> 0 < length yz
            \<and> g_modules k ''tf'' = Some tf \<and> g_modules k ''np'' = Some np
            \<and> g_norm k = Some n \<and> shuffle e' 0 (zip X yz) \<noteq> []
          \<longrightarrow> snd (training_cell e' k) = Some (NameError ''tfd'')
              \<and> g_loss_log (fst (training_cell e' k)) = Some []
              \<and> outputs (fst (training_cell e' k)) = outputs k)"
proof -
  let ?k = "run_each cs fresh_kernel"
  note r = run_each_resolve [OF assms]
  have u: "g_modules ?k ''tfd'' = None"
    using run_each_unreached [OF assms diagnostics_unreached_fresh]
    by (simp add: diagnostics_unreached_def)
  have a: "snd (kernel_step e' ?k st batch) = Inl (NameError ''tfd'')"
    and b: "snd (fst (kernel_step e' ?k st batch)) = snd st"
    and c: "\<forall>w. m_weights (fst st) = Some w \<longrightarrow> fst (fst (kernel_step e' ?k st batch)) = fst st"
    using kernel_step_unresolved [OF r, where e = e' and st = st and batch = batch] by simp_all
  have d: "snd (training_cell e' k) = Some (NameError ''tfd'')
         \<and> g_loss_log (fst (training_cell e' k)) = Some []
         \<and> outputs (fst (training_cell e' k)) = outputs k"
    if h: "g_modules k ''tfd'' = None
        \<and> g_X_raw k = Some X \<and> 0 < array_size X \<and> g_y_z k = Some yz \<and> 0 < length yz
        \<and> g_modules k ''tf'' = Some tf \<and> g_modules k ''np'' = Some np
        \<and> g_norm k = Some n \<and> shuffle e' 0 (zip X yz) \<noteq> []" for k X yz tf np n
  proof -
    have "resolve_skew_t_names k = Some (NameError ''tfd'')"
      using h by (simp add: resolve_skew_t_names_eq)
    then show ?thesis
      using training_cell_unresolved [where k = k and X = X and yz = yz and tf = tf and np = np
          and n = n and e = e'] h by simp
  qed
  show ?thesis
    using u a b c d by blast
qed

theorem step_raises_name_error_witness:
  "set (notebook_cells demo_env) \<subseteq> set (notebook_cells demo_env)
   \<and> snd (kernel_step demo_env (run_each (notebook_cells demo_env) fresh_kernel)
            (demo_model, Adam (1 / 1000)) [([1, 2, 3, 4, 5, 6], 0)]) = Inl (NameError ''tfd'')
   \<and> m_weights (fst (demo_model, Adam (1 / 1000))) = Some (initial_weights demo_env 6 1)
   \<and> fst (kernel_step demo_env (run_each (notebook_cells demo_env) fresh_kernel)
            (demo_model, Adam (1 / 1000)) [([1, 2, 3, 4, 5, 6], 0)]) = (demo_model, Adam (1 / 1000))
   \<and> g_modules demo_data_kernel ''tfd'' = None
   \<and> g_X_raw demo_data_kernel = Some [[1, 2, 3, 4, 5, 6]] \<and> 0 < array_size [[1, 2, 3, 4, 5, 6]]
   \<and> g_y_z demo_data_kernel = Some [0] \<and> 0 < length [0 :: real]
   \<and> g_modules demo_data_kernel ''tf'' = Some ''tensorflow''
   \<and> g_modules demo_data_kernel ''np'' = Some ''numpy''
   \<and> g_norm demo_data_kernel = Some Unadapted
   \<and> shuffle demo_env 0 (zip [[1, 2, 3, 4, 5, 6]] [0]) \<noteq> []
   \<and> snd (training_cell demo_env demo_data_kernel) = Some (NameError ''tfd'')
   \<and> g_loss_log (fst (training_cell demo_env demo_data_kernel)) = Some []"
proof -
  note t = step_raises_name_error [where cs = "notebook_cells demo_env" and e = demo_env
      and e' = demo_env and st = "(demo_model, Adam (1 / 1000))"
      and batch = "[([1, 2, 3, 4, 5, 6], 0)]"]
  have s: "set (notebook_cells demo_env) \<subseteq> set (notebook_cells demo_env)"
    by simp
  have w: "m_weights (fst (demo_model, Adam (1 / 1000))) = Some (initial_weights demo_env 6 1)"
    by (simp add: demo_model_def)
  have h: "g_modules demo_data_kernel ''tfd'' = None
      \<and> g_X_raw demo_data_kernel = Some [[1, 2, 3, 4, 5, 6]] \<and> 0 < array_size [[1, 2, 3, 4, 5, 6]]
      \<and> g_y_z demo_data_kernel = Some [0] \<and> 0 < length [0 :: real]
      \<and> g_modules demo_data_kernel ''tf'' = Some ''tensorflow''
      \<and> g_modules demo_data_kernel ''np'' = Some ''numpy''
      \<and> g_norm demo_data_kernel = Some Unadapted
      \<and> shuffle demo_env 0 (zip [[1, 2, 3, 4, 5, 6]] [0]) \<noteq> []"
    by (simp add: demo_data_kernel_def demo_kernel_modules array_size_def demo_env_def)
  have k: "snd (kernel_step demo_env (run_each (notebook_cells demo_env) fresh_kernel)
            (demo_model, Adam (1 / 1000)) [([1, 2, 3, 4, 5, 6], 0)]) = Inl (NameError ''tfd'')
     \<and> fst (kernel_step demo_env (run_each (notebook_cells demo_env) fresh_kernel)
            (demo_model, Adam (1 / 1000)) [([1, 2, 3, 4, 5, 6], 0)]) = (demo_model, Adam (1 / 1000))"
    using t [OF s] w by (simp add: prod_eq_iff)
  have c: "snd (training_cell demo_env demo_data_kernel) = Some (NameError ''tfd'')
     \<and> g_loss_log (fst (training_cell demo_env demo_data_kernel)) = Some []"
    using t [OF s] h by blast
  show ?thesis
    using s w h k c by blast
qed



end
